theory Spec2Isabelle
  imports Complex_Main "HOL-Library.AList"
begin

section \<open>Numbers and colors\<close>

text \<open>
  The program is JavaScript: every number is an IEEE binary64 double. \<open>mixColors\<close> is
  modelled in binary64, every operation rounded to the nearest double, since what it
  returns at a tie depends on that rounding. The other functions are read over the exact
  reals (integer-valued numbers as \<open>int\<close> or \<open>nat\<close>): a statement about them is about the
  arithmetic the code writes down, not about the rounding of doubles.
  \<open>Math.round\<close> rounds to the nearest integer, a half going up: \<open>\<lfloor>x + 1/2\<rfloor>\<close>.
\<close>

definition Math_round :: "real \<Rightarrow> int" where
  "Math_round x = \<lfloor>x + 1 / 2\<rfloor>"

text \<open>
  A color is the object \<open>{r, g, b}\<close>; the fields are written \<open>red\<close>, \<open>green\<close>,
  \<open>blue\<close> here, the single letters being wanted for variables.
\<close>

record color =
  red :: int
  green :: int
  blue :: int

definition valid_color :: "color \<Rightarrow> bool" where
  "valid_color c =
     (0 \<le> red c \<and> red c \<le> 255 \<and> 0 \<le> green c \<and> green c \<le> 255 \<and>
      0 \<le> blue c \<and> blue c \<le> 255)"

subsection \<open>Binary64 arithmetic\<close>

text \<open>
  \<open>double x\<close> is the double nearest to the real \<open>x\<close>, a tie going to the even
  significand (the rounding of every IEEE operation), for \<open>x\<close> below the overflow
  threshold: \<open>expo x\<close> is the binary exponent of \<open>x\<close>, and \<open>ulp x\<close> the spacing of the
  doubles around \<open>x\<close>, 52 binary places below the exponent and \<open>2 powi (- 1074)\<close> in the
  subnormal range. The sum \<open>a + b\<close> of JavaScript is \<open>double (a + b)\<close>, and so for the
  difference and the product; the literal \<open>0.3\<close> is \<open>double (3 / 10)\<close>.
\<close>

definition expo :: "real \<Rightarrow> int" where
  "expo x = \<lfloor>log 2 \<bar>x\<bar>\<rfloor>"

definition ulp :: "real \<Rightarrow> real" where
  "ulp x = 2 powi (max (expo x) (- 1022) - 52)"

definition round_half_even :: "real \<Rightarrow> int" where
  "round_half_even y =
     (let f = \<lfloor>y\<rfloor>; d = y - of_int f
      in if d < 1 / 2 then f else if 1 / 2 < d then f + 1 else if even f then f else f + 1)"

definition double :: "real \<Rightarrow> real" where
  "double x = (if x = 0 then 0 else of_int (round_half_even (x / ulp x)) * ulp x)"

subsection \<open>colorUtils.js\<close>

text \<open>
  \<open>mixColors\<close>: the channels are integers, the weight is a double; \<open>1 - weight\<close>, the two
  products and their sum are each rounded to a double.
\<close>

definition mixColors :: "color \<Rightarrow> color \<Rightarrow> real \<Rightarrow> color" where
  "mixColors color1 color2 weight =
     (let w1 = double (1 - weight); w2 = weight in
      \<lparr> red = Math_round (double (double (of_int (red color1) * w1)
                                    + double (of_int (red color2) * w2))),
        green = Math_round (double (double (of_int (green color1) * w1)
                                      + double (of_int (green color2) * w2))),
        blue = Math_round (double (double (of_int (blue color1) * w1)
                                     + double (of_int (blue color2) * w2))) \<rparr>)"

definition calculateColorDistance :: "color \<Rightarrow> color \<Rightarrow> real" where
  "calculateColorDistance color1 color2 =
     (let dr = red color1 - red color2;
          dg = green color1 - green color2;
          db = blue color1 - blue color2
      in sqrt (of_int (dr * dr + dg * dg + db * db)))"

definition isColorClose :: "color \<Rightarrow> color \<Rightarrow> real \<Rightarrow> bool" where
  "isColorClose color1 color2 tolerance = (calculateColorDistance color1 color2 \<le> tolerance)"

text \<open>
  \<open>rgbToHsl\<close> and \<open>hslToRgb\<close>. The \<open>switch (max)\<close> of \<open>rgbToHsl\<close> takes the first
  case that is equal to \<open>max\<close>, in the order r, g, b.
\<close>

record hsl =
  hue :: int
  sat :: int
  light :: int

definition rgbToHsl :: "real \<Rightarrow> real \<Rightarrow> real \<Rightarrow> hsl" where
  "rgbToHsl r0 g0 b0 =
     (let r = r0 / 255; g = g0 / 255; b = b0 / 255;
          mx = max (max r g) b;
          mn = min (min r g) b;
          l = (mx + mn) / 2
      in if mx = mn
         then \<lparr> hue = Math_round (0 * 360), sat = Math_round (0 * 100), light = Math_round (l * 100) \<rparr>
         else
           (let d = mx - mn;
                s = (if l > 1 / 2 then d / (2 - mx - mn) else d / (mx + mn));
                h = (if mx = r then (g - b) / d + (if g < b then 6 else 0)
                     else if mx = g then (b - r) / d + 2
                     else (r - g) / d + 4)
            in \<lparr> hue = Math_round (h / 6 * 360), sat = Math_round (s * 100),
                 light = Math_round (l * 100) \<rparr>))"

definition hue2rgb :: "real \<Rightarrow> real \<Rightarrow> real \<Rightarrow> real" where
  "hue2rgb p q t0 =
     (let t1 = (if t0 < 0 then t0 + 1 else t0);
          t = (if t1 > 1 then t1 - 1 else t1)
      in if t < 1 / 6 then p + (q - p) * 6 * t
         else if t < 1 / 2 then q
         else if t < 2 / 3 then p + (q - p) * (2 / 3 - t) * 6
         else p)"

definition hslToRgb :: "real \<Rightarrow> real \<Rightarrow> real \<Rightarrow> color" where
  "hslToRgb h0 s0 l0 =
     (let h = h0 / 360; s = s0 / 100; l = l0 / 100 in
      if s = 0
      then \<lparr> red = Math_round (l * 255), green = Math_round (l * 255), blue = Math_round (l * 255) \<rparr>
      else
        (let q = (if l < 1 / 2 then l * (1 + s) else l + s - l * s);
             p = 2 * l - q
         in \<lparr> red = Math_round (hue2rgb p q (h + 1 / 3) * 255),
              green = Math_round (hue2rgb p q h * 255),
              blue = Math_round (hue2rgb p q (h - 1 / 3) * 255) \<rparr>))"

text \<open>
  \<open>generateRandomColor\<close> draws \<open>Math.random()\<close> three times; the draws \<open>u1\<close>, \<open>u2\<close>, \<open>u3\<close>
  (each in [0,1)) are parameters here.
\<close>

definition generateRandomColor :: "real \<Rightarrow> real \<Rightarrow> real \<Rightarrow> color" where
  "generateRandomColor u1 u2 u3 =
     (let hue = of_int \<lfloor>u1 * 360\<rfloor>;
          saturation = 70 + u2 * 30;
          lightness = 40 + u3 * 20
      in hslToRgb hue saturation lightness)"

section \<open>The hit-color resolvers\<close>

text \<open>
  A position is the object \<open>{x, y, z}\<close> with finite numbers; its fields are written
  \<open>px\<close>, \<open>py\<close>, \<open>pz\<close>.
\<close>

record position =
  px :: real
  py :: real
  pz :: real

text \<open>
  The remainder \<open>a % b\<close> of JavaScript on numbers, for \<open>b \<noteq> 0\<close>: the quotient is
  truncated towards zero, so the result has the sign of \<open>a\<close>.
\<close>

definition js_rem :: "real \<Rightarrow> real \<Rightarrow> real" where
  "js_rem a b = a - b * of_int (if 0 \<le> a / b then \<lfloor>a / b\<rfloor> else \<lceil>a / b\<rceil>)"

text \<open>
  \<open>Math.atan2 y x\<close>: the angle of the point \<open>(x, y)\<close> in \<open>(-\<pi>, \<pi>]\<close>, with 0 at the origin
  (signed zeros are not told apart).
\<close>

definition Math_atan2 :: "real \<Rightarrow> real \<Rightarrow> real" where
  "Math_atan2 y x =
     (if 0 < x then arctan (y / x)
      else if x < 0 then (if 0 \<le> y then arctan (y / x) + pi else arctan (y / x) - pi)
      else if 0 < y then pi / 2
      else if y < 0 then - (pi / 2)
      else 0)"

subsection \<open>Server: Room.hsvToRgb and Room.calculateHitColor\<close>

definition hsvToRgb :: "real \<Rightarrow> real \<Rightarrow> real \<Rightarrow> color" where
  "hsvToRgb h s v =
     (let c = v * s;
          x = c * (1 - \<bar>js_rem (h / 60) 2 - 1\<bar>);
          m = v - c;
          rgb = (if 0 \<le> h \<and> h < 60 then (c, x, 0)
                 else if 60 \<le> h \<and> h < 120 then (x, c, 0)
                 else if 120 \<le> h \<and> h < 180 then (0, c, x)
                 else if 180 \<le> h \<and> h < 240 then (0, x, c)
                 else if 240 \<le> h \<and> h < 300 then (x, 0, c)
                 else (c, 0, x))
      in case rgb of (r, g, b) \<Rightarrow>
           \<lparr> red = Math_round ((r + m) * 255),
             green = Math_round ((g + m) * 255),
             blue = Math_round ((b + m) * 255) \<rparr>)"

text \<open>
  \<open>calculateHitColor\<close> has no \<open>return null\<close>: what it returns is assigned to \<open>hitColor\<close>,
  which is a color or \<open>null\<close> (\<open>None\<close>), and is always a color.
\<close>

definition calculateHitColor :: "position \<Rightarrow> color option" where
  "calculateHitColor position =
     (let x = px position;
          z = pz position;
          angle = Math_atan2 z x;
          hue = js_rem ((angle * 180 / pi) + 360) 360;
          distance = sqrt (x * x + z * z);
          saturation = min (distance / 2) 1;
          brightness = 1
      in Some (hsvToRgb hue saturation brightness))"

subsection \<open>Client: GameRenderer.getColorAtPosition\<close>


section \<open>Room (src/unnamed/part_005)\<close>

text \<open>
  The room of the coordinator is the class of part_005, the version whose
  \<open>processDartThrow\<close> takes the client's \<open>hitColor\<close>. A JavaScript \<open>Map\<close> keeps its keys
  in insertion order: it is an association list, \<open>Map.set\<close> is \<open>AList.update\<close> (a key
  that is there keeps its place, a new key goes last), \<open>Map.delete\<close> is \<open>AList.delete\<close>,
  \<open>Map.get\<close> is \<open>map_of\<close> and \<open>Map.size\<close> is \<open>length\<close> (the lists these operations
  build from the empty list have distinct keys). Objects held in a map are
  mutated in place by the code; the model stores the changed object back under its key.
\<close>

type_synonym playerId = string

datatype phase = waiting | playing | finished

record player =
  player_id :: playerId
  name :: string
  isHost :: bool
  isReady :: bool
  throwCount :: nat
  currentColor :: color
  score :: int

record settings =
  colorTolerance :: real
  maxThrows :: real
  dartSpeed :: real
  difficulty :: string

text \<open>A field of a client message: absent (\<open>undefined\<close>), \<open>null\<close>, or a value.\<close>

datatype 'a field = Undefined | Null | Given 'a

record throwData =
  hitPosition :: "position option"
  hitColor :: "color field"
  trajectory :: string

record throwRecord =
  tr_id :: string
  tr_playerId :: playerId
  tr_timestamp :: nat
  tr_hitPosition :: "position option"
  tr_hitColor :: "color option"
  tr_newColor :: "color option"
  tr_trajectory :: string
  tr_hitBoard :: bool

text \<open>
  \<open>currentTurn\<close> is a number: an index, or \<open>NaN\<close> once \<open>advanceTurn\<close> has taken a
  remainder by the length 0 of an empty turn order.
\<close>

datatype turn = Turn nat | NaN

record room =
  roomCode :: string
  hostId :: playerId
  players :: "(playerId \<times> player) list"
  gameState :: phase
  targetColor :: color
  playerColors :: "(playerId \<times> color) list"
  currentTurn :: turn
  turnOrder :: "playerId list"
  throws :: "throwRecord list"
  gameSettings :: settings

datatype error = Error string | TypeError

record throwResult =
  res_throwData :: throwRecord
  res_newColor :: "color option"
  res_colorChanged :: bool
  res_winner :: "player option"
  res_finalColor :: "color option"

definition Room_addPlayer :: "room \<Rightarrow> playerId \<Rightarrow> string \<Rightarrow> player \<times> room" where
  "Room_addPlayer rm playerId playerName =
     (let player = \<lparr> player_id = playerId, name = playerName, isHost = (playerId = hostId rm),
                      isReady = False, throwCount = 0,
                      currentColor = \<lparr>red = 0, green = 0, blue = 0\<rparr>, score = 0 \<rparr>
      in (player,
          rm\<lparr> players := AList.update playerId player (players rm),
              playerColors := AList.update playerId (currentColor player) (playerColors rm) \<rparr>))"

text \<open>
  The constructor. \<open>generateRandomColor()\<close> is called with the three draws \<open>u\<close> of
  \<open>Math.random()\<close>.
\<close>

definition new_Room :: "string \<Rightarrow> playerId \<Rightarrow> string \<Rightarrow> real \<times> real \<times> real \<Rightarrow> room" where
  "new_Room code host hostName u =
     (case u of (u1, u2, u3) \<Rightarrow>
        snd (Room_addPlayer
          \<lparr> roomCode = code, hostId = host, players = [], gameState = waiting,
            targetColor = generateRandomColor u1 u2 u3, playerColors = [],
            currentTurn = Turn 0, turnOrder = [], throws = [],
            gameSettings = \<lparr> colorTolerance = 30, maxThrows = 10, dartSpeed = 50,
                             difficulty = ''medium'' \<rparr> \<rparr>
          host hostName))"

text \<open>\<open>this.currentTurn >= n\<close>: a comparison with \<open>NaN\<close> is false.\<close>

definition turn_ge :: "turn \<Rightarrow> nat \<Rightarrow> bool" where
  "turn_ge t n = (case t of Turn i \<Rightarrow> n \<le> i | NaN \<Rightarrow> False)"

definition Room_removePlayer :: "room \<Rightarrow> playerId \<Rightarrow> room" where
  "Room_removePlayer rm playerId =
     (let rm1 = rm\<lparr> players := AList.delete playerId (players rm),
                     playerColors := AList.delete playerId (playerColors rm) \<rparr>;
          rm2 = (if playerId = hostId rm1 \<and> length (players rm1) > 0
                 then (case players rm1 of
                         [] \<Rightarrow> rm1
                       | (k, newHost) # rest \<Rightarrow>
                           rm1\<lparr> hostId := player_id newHost,
                                players := (k, newHost\<lparr>isHost := True\<rparr>) # rest \<rparr>)
                 else rm1);
          rm3 = rm2\<lparr> turnOrder := filter (\<lambda>i. i \<noteq> playerId) (turnOrder rm2) \<rparr>
      in if turn_ge (currentTurn rm3) (length (turnOrder rm3))
         then rm3\<lparr> currentTurn := Turn 0 \<rparr>
         else rm3)"

text \<open>
  The loop of \<open>startGame\<close> over \<open>this.players.values()\<close>: each player object is reset in
  place and its color is stored under \<open>player.id\<close>.
\<close>

fun resetPlayers ::
  "(playerId \<times> player) list \<Rightarrow> (playerId \<times> color) list
     \<Rightarrow> (playerId \<times> player) list \<times> (playerId \<times> color) list" where
  "resetPlayers [] colors = ([], colors)"
| "resetPlayers ((k, pl) # rest) colors =
     (let pl' = pl\<lparr> throwCount := 0,
                     currentColor := \<lparr>red = 128, green = 128, blue = 128\<rparr>,
                     score := 0 \<rparr>;
          colors' = AList.update (player_id pl') (currentColor pl') colors
      in case resetPlayers rest colors' of
           (ps, colors'') \<Rightarrow> ((k, pl') # ps, colors''))"

definition Room_startGame :: "room \<Rightarrow> color \<Rightarrow> room" where
  "Room_startGame rm target =
     (let rm1 = rm\<lparr> gameState := playing, targetColor := target,
                     turnOrder := map fst (players rm), currentTurn := Turn 0,
                     throws := [] \<rparr>
      in case resetPlayers (players rm1) (playerColors rm1) of
           (ps, colors) \<Rightarrow> rm1\<lparr> players := ps, playerColors := colors \<rparr>)"

definition Room_advanceTurn :: "room \<Rightarrow> room" where
  "Room_advanceTurn rm =
     rm\<lparr> currentTurn :=
          (case currentTurn rm of
             NaN \<Rightarrow> NaN
           | Turn i \<Rightarrow>
               if length (turnOrder rm) = 0 then NaN
               else Turn ((i + 1) mod length (turnOrder rm))) \<rparr>"

definition Room_getCurrentPlayer :: "room \<Rightarrow> playerId option" where
  "Room_getCurrentPlayer rm =
     (if length (turnOrder rm) = 0 then None
      else (case currentTurn rm of
              NaN \<Rightarrow> None
            | Turn i \<Rightarrow> if i < length (turnOrder rm) then Some (turnOrder rm ! i) else None))"

text \<open>
  \<open>processDartThrow\<close>. \<open>uuidv4()\<close> and \<open>Date.now()\<close> are the parameters \<open>uuid\<close> and \<open>now\<close>.
  Reading \<open>position.x\<close> of an absent position, or a channel of an absent current color,
  is a \<open>TypeError\<close>.
\<close>

definition Room_processDartThrow ::
  "room \<Rightarrow> playerId \<Rightarrow> throwData \<Rightarrow> string \<Rightarrow> nat \<Rightarrow> error + (throwResult \<times> room)" where
  "Room_processDartThrow rm playerId td uuid now =
     (case map_of (players rm) playerId of
        None \<Rightarrow> Inl (Error ''Player not found'')
      | Some player0 \<Rightarrow>
          (case (case hitColor td of
                   Undefined \<Rightarrow>
                     (case hitPosition td of
                        None \<Rightarrow> Inl TypeError
                      | Some pos \<Rightarrow> Inr (calculateHitColor pos))
                 | Null \<Rightarrow> Inr None
                 | Given c \<Rightarrow> Inr (Some c)) of
             Inl e \<Rightarrow> Inl e
           | Inr hit \<Rightarrow>
               (case (case hit of
                        None \<Rightarrow> Inr (map_of (playerColors rm) playerId, False, rm, player0)
                      | Some hc \<Rightarrow>
                          (case map_of (playerColors rm) playerId of
                             None \<Rightarrow> Inl TypeError
                           | Some cur \<Rightarrow>
                               (let newColor = mixColors cur hc (double (3 / 10));
                                    player1 = player0\<lparr> currentColor := newColor \<rparr>
                                in Inr (Some newColor, True,
                                        rm\<lparr> playerColors :=
                                               AList.update playerId newColor (playerColors rm),
                                            players :=
                                               AList.update playerId player1 (players rm) \<rparr>,
                                        player1)))) of
                  Inl e \<Rightarrow> Inl e
                | Inr (newColor, colorChanged, rm1, player1) \<Rightarrow>
                    (let player2 = player1\<lparr> throwCount := throwCount player1 + 1 \<rparr>;
                         rm2 = rm1\<lparr> players := AList.update playerId player2 (players rm1) \<rparr>;
                         throwRecord =
                           \<lparr> tr_id = uuid, tr_playerId = playerId, tr_timestamp = now,
                             tr_hitPosition = hitPosition td, tr_hitColor = hit,
                             tr_newColor = newColor, tr_trajectory = trajectory td,
                             tr_hitBoard = (hit \<noteq> None) \<rparr>;
                         rm3 = rm2\<lparr> throws := throws rm2 @ [throwRecord] \<rparr>;
                         won = (colorChanged \<and> hit \<noteq> None \<and>
                                (case newColor of
                                   None \<Rightarrow> False
                                 | Some nc \<Rightarrow>
                                     calculateColorDistance nc (targetColor rm3)
                                       \<le> colorTolerance (gameSettings rm3)));
                         winner = (if won then Some player2 else None);
                         finalColor = (if won then newColor else None);
                         rm4 = (if won then rm3\<lparr> gameState := finished \<rparr> else rm3);
                         rm5 = (if winner = None then Room_advanceTurn rm4 else rm4)
                     in Inr (\<lparr> res_throwData = throwRecord,
                               res_newColor = (if colorChanged then newColor else None),
                               res_colorChanged = colorChanged,
                               res_winner = winner,
                               res_finalColor = finalColor \<rparr>,
                             rm5)))))"

text \<open>\<open>getState\<close>: the snapshot of a room that the coordinator's results carry.\<close>

record roomState =
  st_roomCode :: string
  st_hostId :: playerId
  st_players :: "player list"
  st_gameState :: phase
  st_targetColor :: color
  st_currentTurn :: "playerId option"
  st_playerColors :: "(playerId \<times> color) list"
  st_gameSettings :: settings
  st_throwCount :: nat

definition Room_getState :: "room \<Rightarrow> roomState" where
  "Room_getState rm =
     \<lparr> st_roomCode = roomCode rm, st_hostId = hostId rm, st_players = map snd (players rm),
       st_gameState = gameState rm, st_targetColor = targetColor rm,
       st_currentTurn = Room_getCurrentPlayer rm, st_playerColors = playerColors rm,
       st_gameSettings = gameSettings rm, st_throwCount = length (throws rm) \<rparr>"

section \<open>GameManager (src/unnamed/part_004) and generateRoomCode\<close>

text \<open>
  \<open>generateRoomCode\<close> draws \<open>Math.random()\<close> four times; the draws are a parameter.
  \<open>charAt\<close> outside the string is the empty string.
\<close>

definition chars :: string where
  "chars = ''ABCDEFGHIJKLMNOPQRSTUVWXYZ0123456789''"

definition charAt :: "string \<Rightarrow> int \<Rightarrow> string" where
  "charAt str i = (if 0 \<le> i \<and> nat i < length str then [str ! nat i] else [])"

definition generateRoomCode :: "real \<times> real \<times> real \<times> real \<Rightarrow> string" where
  "generateRoomCode draws =
     (case draws of (d0, d1, d2, d3) \<Rightarrow>
        foldl (\<lambda>result d. result @ charAt chars \<lfloor>d * real (length chars)\<rfloor>) []
          [d0, d1, d2, d3])"

record gameManager =
  rooms :: "(string \<times> room) list"
  playerRooms :: "(playerId \<times> string) list"

definition new_GameManager :: gameManager where
  "new_GameManager = \<lparr> rooms = [], playerRooms = [] \<rparr>"

text \<open>
  The results: \<open>{success: false, message}\<close>, or the success object of each operation.
  \<open>removePlayer\<close> returns \<open>{}\<close> or \<open>{roomCode, room}\<close>.
\<close>

datatype joinResult = JoinFailure string | JoinSuccess string "player option" roomState

datatype startResult = StartFailure string | StartSuccess roomState color

datatype removeResult = RemovedNothing | Removed string roomState

definition GameManager_createRoom ::
  "gameManager \<Rightarrow> playerId \<Rightarrow> string \<Rightarrow> real \<times> real \<times> real \<times> real \<Rightarrow> real \<times> real \<times> real
     \<Rightarrow> joinResult \<times> gameManager" where
  "GameManager_createRoom gm playerId playerName codeDraws colorDraws =
     (let code = generateRoomCode codeDraws;
          rm = new_Room code playerId playerName colorDraws
      in (JoinSuccess code (map_of (players rm) playerId) (Room_getState rm),
          gm\<lparr> rooms := AList.update code rm (rooms gm),
              playerRooms := AList.update playerId code (playerRooms gm) \<rparr>))"

fun findAvailableRoom_loop :: "(string \<times> room) list \<Rightarrow> string option" where
  "findAvailableRoom_loop [] = None"
| "findAvailableRoom_loop ((code, rm) # rest) =
     (if length (players rm) < 4 \<and> gameState rm = waiting then Some code
      else findAvailableRoom_loop rest)"

definition GameManager_findAvailableRoom :: "gameManager \<Rightarrow> string option" where
  "GameManager_findAvailableRoom gm = findAvailableRoom_loop (rooms gm)"

text \<open>\<open>!roomCode\<close> holds of \<open>null\<close>, \<open>undefined\<close> and the empty string.\<close>

definition falsy :: "string option \<Rightarrow> bool" where
  "falsy c = (c = None \<or> c = Some [])"

definition GameManager_joinRoom ::
  "gameManager \<Rightarrow> playerId \<Rightarrow> string \<Rightarrow> string option
     \<Rightarrow> real \<times> real \<times> real \<times> real \<Rightarrow> real \<times> real \<times> real \<Rightarrow> joinResult \<times> gameManager" where
  "GameManager_joinRoom gm playerId playerName roomCode0 codeDraws colorDraws =
     (let roomCode1 = (if falsy roomCode0 then GameManager_findAvailableRoom gm else roomCode0)
      in if falsy roomCode0 \<and> falsy roomCode1
         then GameManager_createRoom gm playerId playerName codeDraws colorDraws
         else
           (case roomCode1 of
              None \<Rightarrow> (JoinFailure ''Room not found'', gm)
            | Some code \<Rightarrow>
                (case map_of (rooms gm) code of
                   None \<Rightarrow> (JoinFailure ''Room not found'', gm)
                 | Some rm \<Rightarrow>
                     if length (players rm) \<ge> 4 then (JoinFailure ''Room is full'', gm)
                     else if gameState rm \<noteq> waiting
                     then (JoinFailure ''Game is already in progress'', gm)
                     else
                       (case Room_addPlayer rm playerId playerName of
                          (player, rm') \<Rightarrow>
                            (JoinSuccess code (Some player) (Room_getState rm'),
                             gm\<lparr> rooms := AList.update code rm' (rooms gm),
                                 playerRooms :=
                                   AList.update playerId code (playerRooms gm) \<rparr>)))))"

definition GameManager_startGame ::
  "gameManager \<Rightarrow> string \<Rightarrow> playerId \<Rightarrow> startResult \<times> gameManager" where
  "GameManager_startGame gm code requester =
     (case map_of (rooms gm) code of
        None \<Rightarrow> (StartFailure ''Room not found'', gm)
      | Some rm \<Rightarrow>
          if hostId rm \<noteq> requester then (StartFailure ''Only the host can start the game'', gm)
          else if length (players rm) < 2
          then (StartFailure ''Need at least 2 players to start'', gm)
          else
            (let rm' = Room_startGame rm (targetColor rm)
             in (StartSuccess (Room_getState rm') (targetColor rm'),
                 gm\<lparr> rooms := AList.update code rm' (rooms gm) \<rparr>)))"

definition GameManager_removePlayer ::
  "gameManager \<Rightarrow> playerId \<Rightarrow> removeResult \<times> gameManager" where
  "GameManager_removePlayer gm playerId =
     (case map_of (playerRooms gm) playerId of
        None \<Rightarrow> (RemovedNothing, gm)
      | Some code \<Rightarrow>
          if code = [] then (RemovedNothing, gm)
          else
            (case map_of (rooms gm) code of
               None \<Rightarrow> (RemovedNothing, gm)
             | Some rm \<Rightarrow>
                 (let rm' = Room_removePlayer rm playerId;
                      gm1 = gm\<lparr> rooms := AList.update code rm' (rooms gm),
                                 playerRooms := AList.delete playerId (playerRooms gm) \<rparr>;
                      gm2 = (if length (players rm') = 0
                             then gm1\<lparr> rooms := AList.delete code (rooms gm1) \<rparr>
                             else gm1)
                  in (Removed code (Room_getState rm'), gm2))))"

subsection \<open>Sequences of coordinator operations\<close>

datatype operation =
    CreateRoom playerId string "real \<times> real \<times> real \<times> real" "real \<times> real \<times> real"
  | JoinRoom playerId string "string option" "real \<times> real \<times> real \<times> real" "real \<times> real \<times> real"
  | RemovePlayer playerId

fun apply_operation :: "gameManager \<Rightarrow> operation \<Rightarrow> gameManager" where
  "apply_operation gm (CreateRoom playerId playerName cd ud) =
     snd (GameManager_createRoom gm playerId playerName cd ud)"
| "apply_operation gm (JoinRoom playerId playerName code cd ud) =
     snd (GameManager_joinRoom gm playerId playerName code cd ud)"
| "apply_operation gm (RemovePlayer playerId) = snd (GameManager_removePlayer gm playerId)"

definition run :: "operation list \<Rightarrow> gameManager" where
  "run ops = foldl apply_operation new_GameManager ops"

subsection \<open>Invariants of the coordinator\<close>

text \<open>
  \<open>registry_inv\<close>: the registry is keyed by room code, a room standing under its own
  code. \<open>index_inv\<close>: the reverse index \<open>playerRooms\<close> agrees with membership, a player
  being indexed under a code exactly when the room of that code holds the player.
  \<open>fresh_op\<close> says of a \<open>createRoom\<close> or \<open>joinRoom\<close> call that its player is in no room
  (has no index entry), and that the code a new room would get is not in the registry;
  \<open>fresh_ops\<close> says so of every call of a sequence, each in the state it is made in.
  \<open>roster\<close> lists the player ids of every room, by code.
\<close>

definition registry_inv :: "gameManager \<Rightarrow> bool" where
  "registry_inv gm =
     (distinct (map fst (rooms gm))
      \<and> (\<forall>c r. map_of (rooms gm) c = Some r \<longrightarrow> roomCode r = c))"

definition index_inv :: "gameManager \<Rightarrow> bool" where
  "index_inv gm =
     (\<forall>pid c. (map_of (playerRooms gm) pid = Some c)
        = (\<exists>r. map_of (rooms gm) c = Some r \<and> pid \<in> fst ` set (players r)))"

fun fresh_op :: "gameManager \<Rightarrow> operation \<Rightarrow> bool" where
  "fresh_op gm (CreateRoom pid nm cd ud) =
     (map_of (playerRooms gm) pid = None \<and> map_of (rooms gm) (generateRoomCode cd) = None)"
| "fresh_op gm (JoinRoom pid nm code cd ud) =
     (map_of (playerRooms gm) pid = None
      \<and> (falsy code \<and> falsy (GameManager_findAvailableRoom gm)
           \<longrightarrow> map_of (rooms gm) (generateRoomCode cd) = None))"
| "fresh_op gm (RemovePlayer pid) = True"

fun fresh_ops :: "gameManager \<Rightarrow> operation list \<Rightarrow> bool" where
  "fresh_ops gm [] = True"
| "fresh_ops gm (x # xs) = (fresh_op gm x \<and> fresh_ops (apply_operation gm x) xs)"

definition roster :: "gameManager \<Rightarrow> (string \<times> playerId list) list" where
  "roster gm = map (\<lambda>(c, r). (c, map fst (players r))) (rooms gm)"

subsection \<open>A room for the examples\<close>

text \<open>
  Alice creates a room, Bob and Cy join, and the game is started with the target color
  (100, 100, 100); the tolerance is the default 30.
\<close>

definition example_room :: room where
  "example_room =
     Room_startGame
       (snd (Room_addPlayer
          (snd (Room_addPlayer (new_Room ''ABCD'' ''a'' ''Alice'' (0, 0, 0)) ''b'' ''Bob''))
          ''c'' ''Cy''))
       \<lparr>red = 100, green = 100, blue = 100\<rparr>"

definition example_player :: "playerId \<Rightarrow> string \<Rightarrow> bool \<Rightarrow> player" where
  "example_player i n h =
     \<lparr> player_id = i, name = n, isHost = h, isReady = False, throwCount = 0,
       currentColor = \<lparr>red = 128, green = 128, blue = 128\<rparr>, score = 0 \<rparr>"

subsection \<open>Coordinator states for the examples\<close>

text \<open>
  With all four draws 0 the generated code is AAAA. \<open>example_waiting_room\<close> is the room
  AAAA with the given players, Alice (a) the host, before the game starts.
\<close>

definition example_solo :: gameManager where
  "example_solo = run [CreateRoom ''a'' ''Alice'' (0, 0, 0, 0) (0, 0, 0)]"

definition example_lobby :: gameManager where
  "example_lobby =
     run [CreateRoom ''a'' ''Alice'' (0, 0, 0, 0) (0, 0, 0),
          JoinRoom ''b'' ''Bob'' (Some ''AAAA'') (0, 0, 0, 0) (0, 0, 0)]"

definition example_full :: gameManager where
  "example_full =
     run [CreateRoom ''a'' ''Alice'' (0, 0, 0, 0) (0, 0, 0),
          JoinRoom ''b'' ''Bob'' (Some ''AAAA'') (0, 0, 0, 0) (0, 0, 0),
          JoinRoom ''c'' ''Cy'' (Some ''AAAA'') (0, 0, 0, 0) (0, 0, 0),
          JoinRoom ''d'' ''Di'' (Some ''AAAA'') (0, 0, 0, 0) (0, 0, 0)]"

definition example_started :: gameManager where
  "example_started = snd (GameManager_startGame example_lobby ''AAAA'' ''a'')"

definition example_waiting_room :: "(playerId \<times> string) list \<Rightarrow> room" where
  "example_waiting_room ps =
     \<lparr> roomCode = ''AAAA'', hostId = ''a'',
       players = map (\<lambda>(i, n). (i, \<lparr> player_id = i, name = n, isHost = (i = ''a''),
                      isReady = False, throwCount = 0,
                      currentColor = \<lparr>red = 0, green = 0, blue = 0\<rparr>, score = 0 \<rparr>)) ps,
       gameState = waiting,
       targetColor = generateRandomColor 0 0 0,
       playerColors = map (\<lambda>(i, n). (i, \<lparr>red = 0, green = 0, blue = 0\<rparr>)) ps,
       currentTurn = Turn 0, turnOrder = [], throws = [],
       gameSettings = \<lparr> colorTolerance = 30, maxThrows = 10, dartSpeed = 50,
                        difficulty = ''medium'' \<rparr> \<rparr>"

definition example_ops :: "operation list" where
  "example_ops =
     [CreateRoom ''a'' ''Alice'' (0, 0, 0, 0) (0, 0, 0),
      JoinRoom ''b'' ''Bob'' (Some ''AAAA'') (0, 0, 0, 0) (0, 0, 0),
      CreateRoom ''c'' ''Cy'' (1 / 32, 1 / 32, 1 / 32, 1 / 32) (0, 0, 0),
      RemovePlayer ''a'']"

section \<open>Properties of the color model\<close>

lemma Math_round_range:
  assumes "0 \<le> x" and "x \<le> 255"
  shows "0 \<le> Math_round x \<and> Math_round x \<le> 255"
proof -
  have "0 \<le> \<lfloor>x + 1 / 2\<rfloor>" using assms(1) by simp
  moreover have "\<lfloor>x + 1 / 2\<rfloor> \<le> 255" using assms(2) by (simp add: floor_le_iff)
  ultimately show ?thesis by (simp add: Math_round_def)
qed

lemma Math_round_mono: "x \<le> y \<Longrightarrow> Math_round x \<le> Math_round y"
  by (simp add: Math_round_def floor_mono)

lemma Math_round_err: "\<bar>real_of_int (Math_round x) - x\<bar> \<le> 1 / 2"
proof -
  have "real_of_int \<lfloor>x + 1 / 2\<rfloor> \<le> x + 1 / 2" by (rule of_int_floor_le)
  moreover have "x + 1 / 2 < real_of_int \<lfloor>x + 1 / 2\<rfloor> + 1" by linarith
  ultimately show ?thesis unfolding Math_round_def by linarith
qed

lemma convex_channel:
  fixes a b w :: real
  assumes "0 \<le> a" "a \<le> 255" "0 \<le> b" "b \<le> 255" "0 \<le> w" "w \<le> 1"
  shows "0 \<le> a * (1 - w) + b * w \<and> a * (1 - w) + b * w \<le> 255"
proof -
  define p where "p = a * (1 - w)"
  define q where "q = b * w"
  have A: "p \<le> 255 * (1 - w)" unfolding p_def using assms by (intro mult_right_mono) auto
  have B: "q \<le> 255 * w" unfolding q_def using assms by (intro mult_right_mono) auto
  have C: "0 \<le> p" "0 \<le> q" unfolding p_def q_def using assms by auto
  have "0 \<le> p + q" using C by linarith
  moreover have "p + q \<le> 255" using A B by (simp add: algebra_simps)
  ultimately show ?thesis by (simp add: p_def q_def)
qed

lemma round_half_even_err: "\<bar>real_of_int (round_half_even y) - y\<bar> \<le> 1 / 2"
proof -
  have "real_of_int \<lfloor>y\<rfloor> \<le> y" "y < real_of_int \<lfloor>y\<rfloor> + 1" by linarith+
  then show ?thesis by (auto simp add: round_half_even_def Let_def)
qed

lemma round_half_even_nonneg: "0 \<le> y \<Longrightarrow> 0 \<le> round_half_even y"
proof -
  assume "0 \<le> y"
  then have "0 \<le> \<lfloor>y\<rfloor>" by simp
  then show ?thesis by (auto simp add: round_half_even_def Let_def)
qed

lemma ulp_pos: "0 < ulp x"
  by (simp add: ulp_def)

lemma double_err: "\<bar>double x - x\<bar> \<le> ulp x / 2"
proof (cases "x = 0")
  case True
  then show ?thesis using ulp_pos[of x] by (simp add: double_def)
next
  case False
  define u where "u = ulp x"
  define n where "n = round_half_even (x / u)"
  have u: "0 < u" unfolding u_def by (rule ulp_pos)
  have "\<bar>real_of_int n - x / u\<bar> \<le> 1 / 2" unfolding n_def by (rule round_half_even_err)
  then have "\<bar>real_of_int n - x / u\<bar> * u \<le> 1 / 2 * u" using u by (intro mult_right_mono) simp_all
  moreover have "\<bar>real_of_int n - x / u\<bar> * u = \<bar>real_of_int n * u - x\<bar>"
  proof -
    have "\<bar>real_of_int n - x / u\<bar> * u = \<bar>(real_of_int n - x / u) * u\<bar>"
      using u by (simp add: abs_mult)
    also have "(real_of_int n - x / u) * u = real_of_int n * u - x"
      using u by (simp add: algebra_simps)
    finally show ?thesis .
  qed
  ultimately have "\<bar>real_of_int n * u - x\<bar> \<le> u / 2" by simp
  then show ?thesis using False by (simp add: double_def n_def u_def)
qed

lemma double_nonneg: "0 \<le> x \<Longrightarrow> 0 \<le> double x"
proof -
  assume x: "0 \<le> x"
  have "0 \<le> x / ulp x" using x ulp_pos[of x] by simp
  then have "0 \<le> round_half_even (x / ulp x)" by (rule round_half_even_nonneg)
  then show ?thesis using ulp_pos[of x] by (simp add: double_def)
qed

lemma expo_eq:
  assumes "2 powi e \<le> \<bar>x\<bar>" and "\<bar>x\<bar> < 2 powi (e + 1)"
  shows "expo x = e"
proof -
  have "0 < (2::real) powi e" by simp
  then have pos: "0 < \<bar>x\<bar>" using assms(1) by linarith
  have "real_of_int e \<le> log 2 \<bar>x\<bar>"
    using assms(1) pos by (simp add: le_log_iff powr_real_of_int')
  moreover have "log 2 \<bar>x\<bar> < real_of_int (e + 1)"
    using assms(2) pos by (simp add: log_less_iff powr_real_of_int' del: of_int_add)
  ultimately show ?thesis unfolding expo_def by (simp add: floor_eq_iff)
qed

lemma expo_less:
  assumes "x \<noteq> 0" and "\<bar>x\<bar> < 2 powi n"
  shows "expo x < n"
proof -
  have pos: "0 < \<bar>x\<bar>" using assms(1) by simp
  have "log 2 \<bar>x\<bar> < real_of_int n"
    using assms(2) pos by (simp add: log_less_iff powr_real_of_int')
  then show ?thesis unfolding expo_def by (simp add: floor_less_iff)
qed

lemma double_eval:
  assumes "2 powi e \<le> \<bar>x\<bar>" and "\<bar>x\<bar> < 2 powi (e + 1)" and "- 1022 \<le> e"
  shows "double x = of_int (round_half_even (x / 2 powi (e - 52))) * 2 powi (e - 52)"
proof -
  have "0 < (2::real) powi e" by simp
  then have "0 < \<bar>x\<bar>" using assms(1) by linarith
  then have "x \<noteq> 0" by simp
  moreover have "ulp x = 2 powi (e - 52)"
    using expo_eq[OF assms(1,2)] assms(3) by (simp add: ulp_def max_def)
  ultimately show ?thesis by (simp add: double_def)
qed

lemma double_small_err:
  assumes "\<bar>x\<bar> < 256"
  shows "\<bar>double x - x\<bar> \<le> 1 / 2 ^ 46"
proof (cases "x = 0")
  case True
  then show ?thesis by (simp add: double_def)
next
  case False
  have "\<bar>x\<bar> < 2 powi 8" using assms by simp
  then have "expo x < 8" using False by (rule expo_less[rotated])
  then have "max (expo x) (- 1022) - 52 \<le> - 45" by simp
  then have "ulp x \<le> 2 powi (- 45)"
    unfolding ulp_def by (intro power_int_increasing) simp_all
  then have "ulp x / 2 \<le> 1 / 2 ^ 46" by (simp add: power_int_minus field_simps)
  then show ?thesis using double_err[of x] by linarith
qed

lemma double_zero: "double 0 = 0"
  by (simp add: double_def)

lemma mix_channel:
  fixes a b :: int and w :: real
  assumes a: "0 \<le> a" "a \<le> 255" and b: "0 \<le> b" "b \<le> 255" and w: "0 \<le> w" "w \<le> 1"
  shows "0 \<le> Math_round (double (double (of_int a * double (1 - w)) + double (of_int b * w)))
    \<and> Math_round (double (double (of_int a * double (1 - w)) + double (of_int b * w))) \<le> 255
    \<and> \<bar>real_of_int (Math_round (double (double (of_int a * double (1 - w))
                                      + double (of_int b * w))))
        - (real_of_int a * (1 - w) + real_of_int b * w)\<bar> \<le> 1 / 2 + 1 / 2 ^ 37"
proof -
  define eps :: real where "eps = 1 / 2 ^ 46"
  define ra where "ra = real_of_int a"
  define rb where "rb = real_of_int b"
  define w1 where "w1 = double (1 - w)"
  define A0 where "A0 = ra * (1 - w)"
  define A where "A = ra * w1"
  define A' where "A' = double A"
  define B where "B = rb * w"
  define B' where "B' = double B"
  define S where "S = A' + B'"
  define S' where "S' = double S"
  define c where "c = Math_round S'"
  have eps: "eps = 1 / 70368744177664" by (simp add: eps_def)
  have ra: "0 \<le> ra" "ra \<le> 255" using a by (simp_all add: ra_def)
  have rb: "0 \<le> rb" "rb \<le> 255" using b by (simp_all add: rb_def)
  have w1e: "\<bar>w1 - (1 - w)\<bar> \<le> eps"
    unfolding w1_def eps_def using w by (intro double_small_err) simp
  have w10: "0 \<le> w1" unfolding w1_def using w by (intro double_nonneg) simp
  have "\<bar>A - A0\<bar> = ra * \<bar>w1 - (1 - w)\<bar>"
  proof -
    have "A - A0 = ra * (w1 - (1 - w))" by (simp add: A_def A0_def algebra_simps)
    then show ?thesis using ra(1) by (simp add: abs_mult)
  qed
  moreover have "ra * \<bar>w1 - (1 - w)\<bar> \<le> 255 * eps"
    using ra w1e by (intro mult_mono) simp_all
  ultimately have Ae: "\<bar>A - A0\<bar> \<le> 255 * eps" by simp
  have A00: "0 \<le> A0" unfolding A0_def using ra w by simp
  have "ra * (1 - w) \<le> 255 * 1" using ra w by (intro mult_mono) simp_all
  then have A0u: "A0 \<le> 255" by (simp add: A0_def)
  have A0n: "0 \<le> A" unfolding A_def using ra w10 by simp
  have Asm: "\<bar>A\<bar> < 256" using Ae A0u A00 eps by linarith
  have A'e: "\<bar>A' - A\<bar> \<le> eps" unfolding A'_def eps_def using Asm by (rule double_small_err)
  have A'0: "0 \<le> A'" unfolding A'_def using A0n by (rule double_nonneg)
  have B0: "0 \<le> B" unfolding B_def using rb w by simp
  have "rb * w \<le> 255 * 1" using rb w by (intro mult_mono) simp_all
  then have Bu: "B \<le> 255" by (simp add: B_def)
  have B'e: "\<bar>B' - B\<bar> \<le> eps"
    unfolding B'_def eps_def using B0 Bu by (intro double_small_err) simp
  have B'0: "0 \<le> B'" unfolding B'_def using B0 by (rule double_nonneg)
  have x: "0 \<le> A0 + B \<and> A0 + B \<le> 255"
    unfolding A0_def B_def using ra rb w by (intro convex_channel) simp_all
  have S0: "0 \<le> S" unfolding S_def using A'0 B'0 by simp
  have Se: "\<bar>S - (A0 + B)\<bar> \<le> 257 * eps" unfolding S_def using Ae A'e B'e by linarith
  have Ssm: "\<bar>S\<bar> < 256" using Se x eps by linarith
  have S'e: "\<bar>S' - S\<bar> \<le> eps" unfolding S'_def eps_def using Ssm by (rule double_small_err)
  have S'0: "0 \<le> S'" unfolding S'_def using S0 by (rule double_nonneg)
  have S'x: "\<bar>S' - (A0 + B)\<bar> \<le> 258 * eps" using Se S'e by linarith
  have ce: "\<bar>real_of_int c - S'\<bar> \<le> 1 / 2" unfolding c_def by (rule Math_round_err)
  have c0: "0 \<le> c" unfolding c_def Math_round_def using S'0 by simp
  have "S' + 1 / 2 < 256" using S'x x eps by linarith
  then have cu: "c \<le> 255" unfolding c_def Math_round_def by (simp add: floor_le_iff)
  have "\<bar>real_of_int c - (A0 + B)\<bar> \<le> 1 / 2 + 258 * eps" using ce S'x by linarith
  moreover have "258 * eps \<le> 1 / 2 ^ 37" by (simp add: eps)
  ultimately have cx: "\<bar>real_of_int c - (A0 + B)\<bar> \<le> 1 / 2 + 1 / 2 ^ 37" by linarith
  show ?thesis
    using c0 cu cx
    unfolding c_def S'_def S_def A'_def B'_def A_def B_def A0_def w1_def ra_def rb_def
    by simp
qed

text \<open>
  C8, as the code has it. For colors \<open>a\<close>, \<open>b\<close> with integer channels in [0,255] and a
  weight \<open>w\<close> in [0,1], each channel of \<open>mixColors a b w\<close> lies in [0,255] and is within
  \<open>1/2 + 1/2^37\<close> of the exact value of \<open>a * (1 - w) + b * w\<close>: it is \<open>Math.round\<close> of that
  expression as the doubles compute it, which is \<open>round (a * (1 - w) + b * w)\<close> except
  near a tie, where it can be the other neighbouring integer.
\<close>

theorem mixColors_channels:
  assumes "valid_color a" and "valid_color b" and "0 \<le> w" and "w \<le> 1"
  shows "valid_color (mixColors a b w)
       \<and> \<bar>real_of_int (red (mixColors a b w))
            - (real_of_int (red a) * (1 - w) + real_of_int (red b) * w)\<bar> \<le> 1 / 2 + 1 / 2 ^ 37
       \<and> \<bar>real_of_int (green (mixColors a b w))
            - (real_of_int (green a) * (1 - w) + real_of_int (green b) * w)\<bar> \<le> 1 / 2 + 1 / 2 ^ 37
       \<and> \<bar>real_of_int (blue (mixColors a b w))
            - (real_of_int (blue a) * (1 - w) + real_of_int (blue b) * w)\<bar> \<le> 1 / 2 + 1 / 2 ^ 37"
proof -
  have r: "0 \<le> red a" "red a \<le> 255" "0 \<le> red b" "red b \<le> 255"
    and g: "0 \<le> green a" "green a \<le> 255" "0 \<le> green b" "green b \<le> 255"
    and b: "0 \<le> blue a" "blue a \<le> 255" "0 \<le> blue b" "blue b \<le> 255"
    using assms(1,2) by (simp_all add: valid_color_def)
  show ?thesis
    using mix_channel[OF r assms(3,4)] mix_channel[OF g assms(3,4)] mix_channel[OF b assms(3,4)]
    by (simp add: mixColors_def Let_def valid_color_def)
qed

lemma double_3_10: "double (3 / 10) = 5404319552844595 / 18014398509481984"
  by (simp add: double_eval[where e = "- 2"] round_half_even_def)

lemma weight_0_3: "0 \<le> double (3 / 10) \<and> double (3 / 10) \<le> 1"
  by (simp add: double_3_10)

lemma mix_128_255: "mixColors \<lparr>red = 128, green = 128, blue = 128\<rparr>
      \<lparr>red = 255, green = 0, blue = 10\<rparr> (double (3 / 10))
     = \<lparr>red = 166, green = 90, blue = 93\<rparr>"
  by (simp add: mixColors_def Let_def Math_round_def round_half_even_def double_zero
      double_3_10 double_eval[where e = "- 1"] double_eval[where e = 1] double_eval[where e = 6]
      double_eval[where e = 7])

theorem mixColors_channels_witness:
  "valid_color (mixColors \<lparr>red = 128, green = 128, blue = 128\<rparr>
        \<lparr>red = 255, green = 0, blue = 10\<rparr> (double (3 / 10)))
   \<and> mixColors \<lparr>red = 128, green = 128, blue = 128\<rparr> \<lparr>red = 255, green = 0, blue = 10\<rparr>
        (double (3 / 10)) = \<lparr>red = 166, green = 90, blue = 93\<rparr>"
proof -
  have "valid_color (mixColors \<lparr>red = 128, green = 128, blue = 128\<rparr>
        \<lparr>red = 255, green = 0, blue = 10\<rparr> (double (3 / 10)))"
    using mixColors_channels[of "\<lparr>red = 128, green = 128, blue = 128\<rparr>"
        "\<lparr>red = 255, green = 0, blue = 10\<rparr>" "double (3 / 10)"] weight_0_3
    by (simp add: valid_color_def)
  then show ?thesis using mix_128_255 by simp
qed

text \<open>
  The claim C8 as stated fails at ties. With the weight \<open>0.3\<close>, a double in [0,1], the
  channels 0 and 5 mix to 2 in the code, while \<open>0 * (1 - w) + 5 * w\<close> is below 1.5 and
  rounds to 1; and the colors (1, 2, 3) and (36, 57, 18) mix to (11, 18, 7), while with
  the weight three tenths the three exact values 11.5, 18.5 and 7.5 round to
  (12, 19, 8).
\<close>

theorem mixColors_tie:
  "valid_color \<lparr>red = 0, green = 0, blue = 0\<rparr> \<and> valid_color \<lparr>red = 5, green = 5, blue = 5\<rparr>
   \<and> 0 \<le> double (3 / 10) \<and> double (3 / 10) \<le> 1
   \<and> red (mixColors \<lparr>red = 0, green = 0, blue = 0\<rparr> \<lparr>red = 5, green = 5, blue = 5\<rparr>
        (double (3 / 10))) = 2
   \<and> round (real_of_int 0 * (1 - double (3 / 10)) + real_of_int 5 * double (3 / 10)) = 1
   \<and> mixColors \<lparr>red = 1, green = 2, blue = 3\<rparr> \<lparr>red = 36, green = 57, blue = 18\<rparr>
        (double (3 / 10)) = \<lparr>red = 11, green = 18, blue = 7\<rparr>
   \<and> round (real_of_int 1 * (1 - 3 / 10) + real_of_int 36 * (3 / 10)) = 12
   \<and> round (real_of_int 2 * (1 - 3 / 10) + real_of_int 57 * (3 / 10)) = 19
   \<and> round (real_of_int 3 * (1 - 3 / 10) + real_of_int 18 * (3 / 10)) = 8"
proof -
  have a: "red (mixColors \<lparr>red = 0, green = 0, blue = 0\<rparr> \<lparr>red = 5, green = 5, blue = 5\<rparr>
        (double (3 / 10))) = 2"
    by (simp add: mixColors_def Let_def Math_round_def round_half_even_def double_zero
        double_3_10 double_eval[where e = "- 1"] double_eval[where e = 0])
  have b: "round (real_of_int 0 * (1 - double (3 / 10)) + real_of_int 5 * double (3 / 10)) = 1"
    by (simp add: double_3_10 round_def)
  have c: "mixColors \<lparr>red = 1, green = 2, blue = 3\<rparr> \<lparr>red = 36, green = 57, blue = 18\<rparr>
        (double (3 / 10)) = \<lparr>red = 11, green = 18, blue = 7\<rparr>"
    by (simp add: mixColors_def Let_def Math_round_def round_half_even_def double_zero
        double_3_10 double_eval[where e = "- 1"] double_eval[where e = 0]
        double_eval[where e = 1] double_eval[where e = 2] double_eval[where e = 3]
        double_eval[where e = 4])
  have d: "round (real_of_int 1 * (1 - 3 / 10) + real_of_int 36 * (3 / 10)) = 12"
    "round (real_of_int 2 * (1 - 3 / 10) + real_of_int 57 * (3 / 10)) = 19"
    "round (real_of_int 3 * (1 - 3 / 10) + real_of_int 18 * (3 / 10)) = 8"
    by (simp_all add: round_def)
  show ?thesis using a b c d weight_0_3 by (simp add: valid_color_def)
qed

section \<open>Properties of the hit-color resolvers\<close>

lemma js_rem_range:
  assumes "0 \<le> a" and "0 < b"
  shows "0 \<le> js_rem a b \<and> js_rem a b < b"
proof -
  define k where "k = \<lfloor>a / b\<rfloor>"
  have nn: "0 \<le> a / b" using assms by simp
  have eq: "js_rem a b = a - b * of_int k" using nn by (simp add: js_rem_def k_def)
  have "of_int k \<le> a / b" unfolding k_def by simp
  then have "of_int k * b \<le> a" using assms(2) by (simp add: pos_le_divide_eq)
  then have lo: "0 \<le> a - b * of_int k" by (simp add: mult.commute)
  have "a / b < of_int k + 1" unfolding k_def by linarith
  then have "a < (of_int k + 1) * b" using assms(2) by (simp add: pos_divide_less_eq)
  then have hi: "a - b * of_int k < b" by (simp add: algebra_simps)
  show ?thesis using eq lo hi by simp
qed

lemma unit_rgb_valid:
  assumes "0 \<le> a \<and> a \<le> 1" and "0 \<le> b \<and> b \<le> 1" and "0 \<le> c \<and> c \<le> 1"
  shows "valid_color \<lparr> red = Math_round (a * 255), green = Math_round (b * 255),
           blue = Math_round (c * 255) \<rparr>"
proof -
  have "0 \<le> Math_round (a * 255) \<and> Math_round (a * 255) \<le> 255"
    using assms(1) by (intro Math_round_range) auto
  moreover have "0 \<le> Math_round (b * 255) \<and> Math_round (b * 255) \<le> 255"
    using assms(2) by (intro Math_round_range) auto
  moreover have "0 \<le> Math_round (c * 255) \<and> Math_round (c * 255) \<le> 255"
    using assms(3) by (intro Math_round_range) auto
  ultimately show ?thesis by (simp add: valid_color_def)
qed

lemma hsvToRgb_valid:
  assumes "0 \<le> h" and "0 \<le> s" and "s \<le> 1" and "0 \<le> v" and "v \<le> 1"
  shows "valid_color (hsvToRgb h s v)"
proof -
  define c where "c = v * s"
  define f where "f = js_rem (h / 60) 2"
  define x where "x = c * (1 - \<bar>f - 1\<bar>)"
  define m where "m = v - c"
  have c0: "0 \<le> c" unfolding c_def using assms by simp
  have cv: "c \<le> v" unfolding c_def using assms by (simp add: mult_left_le)
  have f: "0 \<le> f \<and> f < 2" unfolding f_def using assms(1) by (intro js_rem_range) auto
  then have k: "0 \<le> 1 - \<bar>f - 1\<bar>" "1 - \<bar>f - 1\<bar> \<le> 1" by auto
  have x0: "0 \<le> x" unfolding x_def using c0 k(1) by simp
  have xc: "x \<le> c" unfolding x_def using c0 k(2) by (simp add: mult_left_le)
  have m0: "0 \<le> m" unfolding m_def using cv by simp
  have cm: "c + m = v" unfolding m_def by simp
  have R1: "0 \<le> c + m \<and> c + m \<le> 1" using cm assms by simp
  have R2: "0 \<le> x + m \<and> x + m \<le> 1" using x0 xc m0 cm assms by (intro conjI) linarith+
  have R3: "0 \<le> 0 + m \<and> 0 + m \<le> 1" using m0 c0 cm assms by (intro conjI) linarith+
  have key: "valid_color \<lparr> red = Math_round ((r + m) * 255), green = Math_round ((g + m) * 255),
           blue = Math_round ((b + m) * 255) \<rparr>"
    if "r \<in> {c, x, 0}" and "g \<in> {c, x, 0}" and "b \<in> {c, x, 0}" for r g b
    using that R1 R2 R3 by (intro unit_rgb_valid) auto
  define sel where "sel = (if 0 \<le> h \<and> h < 60 then (c, x, 0)
                 else if 60 \<le> h \<and> h < 120 then (x, c, 0)
                 else if 120 \<le> h \<and> h < 180 then (0, c, x)
                 else if 180 \<le> h \<and> h < 240 then (0, x, c)
                 else if 240 \<le> h \<and> h < 300 then (x, 0, c)
                 else (c, 0, x))"
  have "\<exists>r g b. sel = (r, g, b) \<and> r \<in> {c, x, 0} \<and> g \<in> {c, x, 0} \<and> b \<in> {c, x, 0}"
    by (simp add: sel_def)
  then obtain r g b where rgb: "sel = (r, g, b)"
    and mem: "r \<in> {c, x, 0}" "g \<in> {c, x, 0}" "b \<in> {c, x, 0}"
    by blast
  have "hsvToRgb h s v = \<lparr> red = Math_round ((r + m) * 255), green = Math_round ((g + m) * 255),
           blue = Math_round ((b + m) * 255) \<rparr>"
    unfolding hsvToRgb_def Let_def c_def[symmetric] f_def[symmetric] x_def[symmetric]
      m_def[symmetric] sel_def[symmetric] rgb by simp
  then show ?thesis using key[OF mem] by simp
qed

lemma Math_atan2_range: "- pi < Math_atan2 y x \<and> Math_atan2 y x \<le> pi"
proof -
  have a: "- (pi / 2) < arctan (y / x)" "arctan (y / x) < pi / 2"
    by (rule arctan_lbound, rule arctan_ubound)
  have b: "x < 0 \<Longrightarrow> 0 \<le> y \<Longrightarrow> arctan (y / x) \<le> 0"
    by (simp add: divide_nonneg_neg)
  have c: "x < 0 \<Longrightarrow> y < 0 \<Longrightarrow> 0 < arctan (y / x)"
    by (simp add: divide_neg_neg)
  have d: "0 < pi" by simp
  show ?thesis unfolding Math_atan2_def using a b c d by (auto; linarith)
qed

lemma hue_range:
  "0 \<le> js_rem ((Math_atan2 y x * 180 / pi) + 360) 360
   \<and> js_rem ((Math_atan2 y x * 180 / pi) + 360) 360 < 360"
proof -
  have "- pi < Math_atan2 y x" using Math_atan2_range by simp
  then have "- 180 < Math_atan2 y x * 180 / pi" by (simp add: field_simps)
  then have "0 \<le> (Math_atan2 y x * 180 / pi) + 360" by linarith
  then show ?thesis by (intro js_rem_range) auto
qed

lemma calculateHitColor_valid:
  "\<exists>c. calculateHitColor position = Some c \<and> valid_color c"
proof -
  define hu where "hu = js_rem ((Math_atan2 (pz position) (px position) * 180 / pi) + 360) 360"
  define sa where "sa = min (sqrt (px position * px position + pz position * pz position) / 2) 1"
  have h0: "0 \<le> hu" unfolding hu_def using hue_range by simp
  have s0: "0 \<le> sa" "sa \<le> 1" unfolding sa_def by simp_all
  have "valid_color (hsvToRgb hu sa 1)" using h0 s0 by (intro hsvToRgb_valid) simp_all
  then show ?thesis by (simp add: calculateHitColor_def Let_def hu_def sa_def)
qed

text \<open>
  C10. For a hue in [0,360) and saturation and value in [0,1], \<open>hsvToRgb\<close> returns a
  color whose channels are integers in [0,255]; and \<open>calculateHitColor\<close> returns such a
  color at every position (the model is a total function: it has no failing branch).
\<close>

theorem hsvToRgb_well_formed:
  "(\<forall>h s v. 0 \<le> h \<and> h < 360 \<and> 0 \<le> s \<and> s \<le> 1 \<and> 0 \<le> v \<and> v \<le> 1
       \<longrightarrow> valid_color (hsvToRgb h s v))
   \<and> (\<forall>position. \<exists>c. calculateHitColor position = Some c \<and> valid_color c)"
  using hsvToRgb_valid calculateHitColor_valid by blast

lemma hsvToRgb_120: "hsvToRgb 120 1 1 = \<lparr>red = 0, green = 255, blue = 0\<rparr>"
  by (simp add: hsvToRgb_def Let_def js_rem_def Math_round_def)

theorem hsvToRgb_well_formed_witness:
  "valid_color (hsvToRgb 120 1 1) \<and> hsvToRgb 120 1 1 = \<lparr>red = 0, green = 255, blue = 0\<rparr>
   \<and> (\<exists>c. calculateHitColor \<lparr>px = 0, py = 0, pz = 1\<rparr> = Some c \<and> valid_color c)"
proof -
  have "valid_color (hsvToRgb 120 1 1)"
    using hsvToRgb_well_formed by simp
  moreover have "\<exists>c. calculateHitColor \<lparr>px = 0, py = 0, pz = 1\<rparr> = Some c \<and> valid_color c"
    using hsvToRgb_well_formed by blast
  ultimately show ?thesis using hsvToRgb_120 by simp
qed

lemma hue2rgb_bounds:
  assumes "p \<le> q" and "- 1 \<le> t" and "t \<le> 2"
  shows "p \<le> hue2rgb p q t \<and> hue2rgb p q t \<le> q"
proof -
  define t1 where "t1 = (if t < 0 then t + 1 else t)"
  define t2 where "t2 = (if t1 > 1 then t1 - 1 else t1)"
  have r: "0 \<le> t2" "t2 \<le> 1" using assms(2,3) by (auto simp add: t1_def t2_def)
  have d: "0 \<le> q - p" using assms(1) by simp
  have e: "hue2rgb p q t = (if t2 < 1 / 6 then p + (q - p) * 6 * t2
         else if t2 < 1 / 2 then q
         else if t2 < 2 / 3 then p + (q - p) * (2 / 3 - t2) * 6
         else p)"
    by (simp add: hue2rgb_def Let_def t1_def t2_def)
  have a1: "p \<le> p + (q - p) * 6 * t2" using d r by simp
  have a2: "p + (q - p) * 6 * t2 \<le> q" if "t2 < 1 / 6"
  proof -
    define u where "u = 6 * t2"
    define w where "w = (q - p) * u"
    have "u \<le> 1" using that by (simp add: u_def)
    then have "(q - p) * u \<le> (q - p) * 1" using d by (intro mult_left_mono) auto
    then have "p + w \<le> q" by (simp add: w_def)
    moreover have "p + (q - p) * 6 * t2 = p + w" by (simp add: w_def u_def)
    ultimately show ?thesis by simp
  qed
  have a3: "p \<le> p + (q - p) * (2 / 3 - t2) * 6" if "t2 < 2 / 3"
    using d that by simp
  have a4: "p + (q - p) * (2 / 3 - t2) * 6 \<le> q" if "1 / 2 \<le> t2"
  proof -
    define u where "u = (2 / 3 - t2) * 6"
    define w where "w = (q - p) * u"
    have "u \<le> 1" using that by (simp add: u_def)
    then have "(q - p) * u \<le> (q - p) * 1" using d by (intro mult_left_mono) auto
    then have "p + w \<le> q" by (simp add: w_def)
    moreover have "p + (q - p) * (2 / 3 - t2) * 6 = p + w" by (simp add: w_def u_def)
    ultimately show ?thesis by simp
  qed
  show ?thesis unfolding e using a1 a2 a3 a4 assms(1) by auto
qed

lemma hslToRgb_gray:
  "hslToRgb h 0 l = \<lparr> red = Math_round (l / 100 * 255), green = Math_round (l / 100 * 255),
                      blue = Math_round (l / 100 * 255) \<rparr>"
  by (simp add: hslToRgb_def Let_def)















section \<open>Properties of the room\<close>

lemma example_room_eq:
  "example_room =
     \<lparr> roomCode = ''ABCD'', hostId = ''a'',
       players = [(''a'', example_player ''a'' ''Alice'' True),
                  (''b'', example_player ''b'' ''Bob'' False),
                  (''c'', example_player ''c'' ''Cy'' False)],
       gameState = playing,
       targetColor = \<lparr>red = 100, green = 100, blue = 100\<rparr>,
       playerColors = [(''a'', \<lparr>red = 128, green = 128, blue = 128\<rparr>),
                       (''b'', \<lparr>red = 128, green = 128, blue = 128\<rparr>),
                       (''c'', \<lparr>red = 128, green = 128, blue = 128\<rparr>)],
       currentTurn = Turn 0, turnOrder = [''a'', ''b'', ''c''], throws = [],
       gameSettings = \<lparr> colorTolerance = 30, maxThrows = 10, dartSpeed = 50,
                        difficulty = ''medium'' \<rparr> \<rparr>"
  by (simp add: example_room_def example_player_def Room_startGame_def Room_addPlayer_def
      new_Room_def Let_def)

lemma sqrt_150: "sqrt 150 \<le> 30"
  by (rule real_le_lsqrt) simp_all

lemma example_mix:
  "mixColors \<lparr>red = 128, green = 128, blue = 128\<rparr> \<lparr>red = 68, green = 18, blue = 51\<rparr>
     (double (3 / 10)) = \<lparr>red = 110, green = 95, blue = 105\<rparr>"
  by (simp add: mixColors_def Let_def Math_round_def round_half_even_def double_3_10
      double_eval[where e = "- 1"] double_eval[where e = 2] double_eval[where e = 3] double_eval[where e = 4]
      double_eval[where e = 6])

lemma example_close:
  "calculateColorDistance \<lparr>red = 110, green = 95, blue = 105\<rparr>
     \<lparr>red = 100, green = 100, blue = 100\<rparr> \<le> 30"
  using sqrt_150 by (simp add: calculateColorDistance_def Let_def)

lemma sqrt_4556: "\<not> sqrt 4556 \<le> 30"
proof -
  have "(30::real) < sqrt 4556" by (rule real_less_rsqrt) simp
  then show ?thesis by simp
qed

lemma example_mix_red:
  "mixColors \<lparr>red = 128, green = 128, blue = 128\<rparr> \<lparr>red = 255, green = 0, blue = 0\<rparr>
     (double (3 / 10)) = \<lparr>red = 166, green = 90, blue = 90\<rparr>"
  by (simp add: mixColors_def Let_def Math_round_def round_half_even_def double_zero
      double_3_10 double_eval[where e = "- 1"] double_eval[where e = 6] double_eval[where e = 7])

lemma example_far:
  "\<not> calculateColorDistance \<lparr>red = 166, green = 90, blue = 90\<rparr>
     \<lparr>red = 100, green = 100, blue = 100\<rparr> \<le> 30"
  using sqrt_4556 by (simp add: calculateColorDistance_def Let_def)

text \<open>
  C2. In a room in phase \<open>playing\<close>, for a throw by a player of the room whose resolved
  hit color is a color \<open>hc\<close> (given by the client, or computed by \<open>calculateHitColor\<close>
  when the client sent none): the player's new color, in the player object and in
  \<open>playerColors\<close>, is \<open>mixColors currentColor hc 0.3\<close>; the player is the winner, with
  \<open>finalColor\<close> the new color and the room \<open>finished\<close>, exactly when the distance of the new
  color to the target is at most \<open>colorTolerance\<close>, and otherwise there is no winner and the
  room stays \<open>playing\<close>. Any throw that returns a winner has changed the color.
\<close>

theorem processDartThrow_hit:
  "(gameState rm = playing \<and> map_of (players rm) pid = Some pl
      \<and> map_of (playerColors rm) pid = Some cur
      \<and> (hitColor td = Given hc
           \<or> (hitColor td = Undefined
               \<and> (\<exists>pos. hitPosition td = Some pos \<and> calculateHitColor pos = Some hc)))
    \<longrightarrow>
     (let newc = mixColors cur hc (double (3 / 10));
          pl' = pl\<lparr> currentColor := newc, throwCount := throwCount pl + 1 \<rparr>;
          close = (calculateColorDistance newc (targetColor rm)
                     \<le> colorTolerance (gameSettings rm))
      in \<exists>res rm'.
           Room_processDartThrow rm pid td uuid now = Inr (res, rm')
           \<and> map_of (playerColors rm') pid = Some newc
           \<and> map_of (players rm') pid = Some pl'
           \<and> res_colorChanged res \<and> res_newColor res = Some newc
           \<and> (res_winner res = Some pl' \<and> res_finalColor res = Some newc) = close
           \<and> (res_winner res = None \<and> res_finalColor res = None) = (\<not> close)
           \<and> (gameState rm' = finished) = close
           \<and> (gameState rm' = playing) = (\<not> close)))
   \<and> (\<forall>res rm'. Room_processDartThrow rm pid td uuid now = Inr (res, rm')
          \<and> res_winner res \<noteq> None \<longrightarrow> res_colorChanged res)"
proof (intro conjI impI allI)
  assume h: "gameState rm = playing \<and> map_of (players rm) pid = Some pl
      \<and> map_of (playerColors rm) pid = Some cur
      \<and> (hitColor td = Given hc
           \<or> (hitColor td = Undefined
               \<and> (\<exists>pos. hitPosition td = Some pos \<and> calculateHitColor pos = Some hc)))"
  then show "let newc = mixColors cur hc (double (3 / 10));
          pl' = pl\<lparr> currentColor := newc, throwCount := throwCount pl + 1 \<rparr>;
          close = (calculateColorDistance newc (targetColor rm)
                     \<le> colorTolerance (gameSettings rm))
      in \<exists>res rm'.
           Room_processDartThrow rm pid td uuid now = Inr (res, rm')
           \<and> map_of (playerColors rm') pid = Some newc
           \<and> map_of (players rm') pid = Some pl'
           \<and> res_colorChanged res \<and> res_newColor res = Some newc
           \<and> (res_winner res = Some pl' \<and> res_finalColor res = Some newc) = close
           \<and> (res_winner res = None \<and> res_finalColor res = None) = (\<not> close)
           \<and> (gameState rm' = finished) = close
           \<and> (gameState rm' = playing) = (\<not> close)"
    by (auto simp add: Room_processDartThrow_def Let_def Room_advanceTurn_def update_conv')
next
  fix res rm'
  assume "Room_processDartThrow rm pid td uuid now = Inr (res, rm') \<and> res_winner res \<noteq> None"
  then show "res_colorChanged res"
    by (auto simp add: Room_processDartThrow_def Let_def
        split: option.splits field.splits sum.splits if_splits)
qed

theorem processDartThrow_hit_witness:
  "(\<exists>res rm'.
     Room_processDartThrow example_room ''a''
       \<lparr> hitPosition = None, hitColor = Given \<lparr>red = 68, green = 18, blue = 51\<rparr>,
         trajectory = [] \<rparr> ''u1'' 0 = Inr (res, rm')
     \<and> map_of (playerColors rm') ''a'' = Some \<lparr>red = 110, green = 95, blue = 105\<rparr>
     \<and> res_colorChanged res
     \<and> res_winner res = Some ((example_player ''a'' ''Alice'' True)
          \<lparr> currentColor := \<lparr>red = 110, green = 95, blue = 105\<rparr>, throwCount := 1 \<rparr>)
     \<and> res_finalColor res = Some \<lparr>red = 110, green = 95, blue = 105\<rparr>
     \<and> gameState rm' = finished)
   \<and> (\<exists>res rm'.
     Room_processDartThrow example_room ''a''
       \<lparr> hitPosition = None, hitColor = Given \<lparr>red = 255, green = 0, blue = 0\<rparr>,
         trajectory = [] \<rparr> ''u1'' 0 = Inr (res, rm')
     \<and> map_of (playerColors rm') ''a'' = Some \<lparr>red = 166, green = 90, blue = 90\<rparr>
     \<and> res_colorChanged res
     \<and> res_winner res = None
     \<and> res_finalColor res = None
     \<and> gameState rm' = playing)"
proof -
  have win: "\<exists>res rm'.
     Room_processDartThrow example_room ''a''
       \<lparr> hitPosition = None, hitColor = Given \<lparr>red = 68, green = 18, blue = 51\<rparr>,
         trajectory = [] \<rparr> ''u1'' 0 = Inr (res, rm')
     \<and> map_of (playerColors rm') ''a'' = Some \<lparr>red = 110, green = 95, blue = 105\<rparr>
     \<and> res_colorChanged res
     \<and> res_winner res = Some ((example_player ''a'' ''Alice'' True)
          \<lparr> currentColor := \<lparr>red = 110, green = 95, blue = 105\<rparr>, throwCount := 1 \<rparr>)
     \<and> res_finalColor res = Some \<lparr>red = 110, green = 95, blue = 105\<rparr>
     \<and> gameState rm' = finished"
  proof -
    have "gameState example_room = playing
        \<and> map_of (players example_room) ''a'' = Some (example_player ''a'' ''Alice'' True)
        \<and> map_of (playerColors example_room) ''a'' = Some \<lparr>red = 128, green = 128, blue = 128\<rparr>"
      by (simp add: example_room_eq)
    moreover have "throwCount (example_player ''a'' ''Alice'' True) = 0"
      by (simp add: example_player_def)
    moreover have "calculateColorDistance \<lparr>red = 110, green = 95, blue = 105\<rparr>
        (targetColor example_room) \<le> colorTolerance (gameSettings example_room)"
      using example_close by (simp add: example_room_eq)
    ultimately show ?thesis
      using conjunct1[OF processDartThrow_hit[where rm = example_room and pid = "''a''"
          and pl = "example_player ''a'' ''Alice'' True"
          and cur = "\<lparr>red = 128, green = 128, blue = 128\<rparr>"
          and td = "\<lparr> hitPosition = None, hitColor = Given \<lparr>red = 68, green = 18, blue = 51\<rparr>,
           trajectory = [] \<rparr>"
          and hc = "\<lparr>red = 68, green = 18, blue = 51\<rparr>" and uuid = "''u1''" and now = 0]]
      by (simp add: Let_def example_mix) blast
  qed
  have nowin: "\<exists>res rm'.
     Room_processDartThrow example_room ''a''
       \<lparr> hitPosition = None, hitColor = Given \<lparr>red = 255, green = 0, blue = 0\<rparr>,
         trajectory = [] \<rparr> ''u1'' 0 = Inr (res, rm')
     \<and> map_of (playerColors rm') ''a'' = Some \<lparr>red = 166, green = 90, blue = 90\<rparr>
     \<and> res_colorChanged res
     \<and> res_winner res = None
     \<and> res_finalColor res = None
     \<and> gameState rm' = playing"
  proof -
    have "gameState example_room = playing
        \<and> map_of (players example_room) ''a'' = Some (example_player ''a'' ''Alice'' True)
        \<and> map_of (playerColors example_room) ''a'' = Some \<lparr>red = 128, green = 128, blue = 128\<rparr>"
      by (simp add: example_room_eq)
    moreover have "\<not> calculateColorDistance \<lparr>red = 166, green = 90, blue = 90\<rparr>
        (targetColor example_room) \<le> colorTolerance (gameSettings example_room)"
      using example_far by (simp add: example_room_eq)
    ultimately show ?thesis
      using conjunct1[OF processDartThrow_hit[where rm = example_room and pid = "''a''"
          and pl = "example_player ''a'' ''Alice'' True"
          and cur = "\<lparr>red = 128, green = 128, blue = 128\<rparr>"
          and td = "\<lparr> hitPosition = None, hitColor = Given \<lparr>red = 255, green = 0, blue = 0\<rparr>,
           trajectory = [] \<rparr>"
          and hc = "\<lparr>red = 255, green = 0, blue = 0\<rparr>" and uuid = "''u1''" and now = 0]]
      by (simp add: Let_def example_mix_red) blast
  qed
  show ?thesis using win nowin by (rule conjI)
qed

text \<open>
  C3. For a throw by a player of the room whose resolved hit color is \<open>null\<close>, the
  \<open>playerColors\<close> map and the player's current color are unchanged, \<open>colorChanged\<close> is
  false and there is no winner. Every throw that returns adds one to the thrower's throw
  count; and when it returns no winner, the turn index \<open>i\<close> of a non-empty turn order
  becomes \<open>(i + 1) mod length turnOrder\<close>. (When \<open>getCurrentPlayer\<close> is the thrower, which
  the coordinator checks before the call, the turn order is non-empty and \<open>currentTurn\<close> is
  an index into it.)
\<close>

theorem processDartThrow_miss_turn:
  "(map_of (players rm) pid = Some pl
      \<and> (hitColor td = Null
           \<or> (hitColor td = Undefined
               \<and> (\<exists>pos. hitPosition td = Some pos \<and> calculateHitColor pos = None)))
      \<longrightarrow> (\<exists>res rm'.
             Room_processDartThrow rm pid td uuid now = Inr (res, rm')
             \<and> playerColors rm' = playerColors rm
             \<and> map_of (players rm') pid = Some (pl\<lparr> throwCount := throwCount pl + 1 \<rparr>)
             \<and> \<not> res_colorChanged res \<and> res_newColor res = None
             \<and> res_winner res = None
             \<and> gameState rm' = gameState rm))
   \<and> (\<forall>res rm'. Room_processDartThrow rm pid td uuid now = Inr (res, rm')
          \<longrightarrow> (\<exists>pl pl'. map_of (players rm) pid = Some pl \<and> map_of (players rm') pid = Some pl'
                  \<and> throwCount pl' = throwCount pl + 1)
              \<and> turnOrder rm' = turnOrder rm
              \<and> (res_winner res = None \<longrightarrow>
                    (\<forall>i. currentTurn rm = Turn i \<and> turnOrder rm \<noteq> []
                       \<longrightarrow> currentTurn rm' = Turn ((i + 1) mod length (turnOrder rm)))))
   \<and> (Room_getCurrentPlayer rm = Some pid
        \<longrightarrow> (\<exists>i. currentTurn rm = Turn i \<and> i < length (turnOrder rm) \<and> turnOrder rm \<noteq> []))"
proof (intro conjI impI allI)
  assume "map_of (players rm) pid = Some pl
      \<and> (hitColor td = Null
           \<or> (hitColor td = Undefined
               \<and> (\<exists>pos. hitPosition td = Some pos \<and> calculateHitColor pos = None)))"
  then show "\<exists>res rm'.
             Room_processDartThrow rm pid td uuid now = Inr (res, rm')
             \<and> playerColors rm' = playerColors rm
             \<and> map_of (players rm') pid = Some (pl\<lparr> throwCount := throwCount pl + 1 \<rparr>)
             \<and> \<not> res_colorChanged res \<and> res_newColor res = None
             \<and> res_winner res = None
             \<and> gameState rm' = gameState rm"
    by (auto simp add: Room_processDartThrow_def Let_def Room_advanceTurn_def update_conv')
next
  fix res rm'
  assume "Room_processDartThrow rm pid td uuid now = Inr (res, rm')"
  then show "\<exists>pl pl'. map_of (players rm) pid = Some pl \<and> map_of (players rm') pid = Some pl'
                  \<and> throwCount pl' = throwCount pl + 1"
    by (auto simp add: Room_processDartThrow_def Let_def Room_advanceTurn_def update_conv'
        split: option.splits field.splits sum.splits if_splits)
next
  fix res rm'
  assume "Room_processDartThrow rm pid td uuid now = Inr (res, rm')"
  then show "turnOrder rm' = turnOrder rm"
    by (auto simp add: Room_processDartThrow_def Let_def Room_advanceTurn_def
        split: option.splits field.splits sum.splits if_splits)
next
  fix res rm' i
  assume "Room_processDartThrow rm pid td uuid now = Inr (res, rm')"
    and "res_winner res = None"
    and "currentTurn rm = Turn i \<and> turnOrder rm \<noteq> []"
  then show "currentTurn rm' = Turn ((i + 1) mod length (turnOrder rm))"
    by (auto simp add: Room_processDartThrow_def Let_def Room_advanceTurn_def
        split: option.splits field.splits sum.splits if_splits)
next
  assume "Room_getCurrentPlayer rm = Some pid"
  then show "\<exists>i. currentTurn rm = Turn i \<and> i < length (turnOrder rm) \<and> turnOrder rm \<noteq> []"
    by (auto simp add: Room_getCurrentPlayer_def split: if_splits turn.splits)
qed

theorem processDartThrow_miss_turn_witness:
  "\<exists>res rm'.
     Room_processDartThrow example_room ''a''
       \<lparr> hitPosition = None, hitColor = Null, trajectory = [] \<rparr> ''u1'' 0 = Inr (res, rm')
     \<and> playerColors rm' = playerColors example_room
     \<and> map_of (players rm') ''a'' = Some ((example_player ''a'' ''Alice'' True)\<lparr> throwCount := 1 \<rparr>)
     \<and> \<not> res_colorChanged res
     \<and> res_winner res = None
     \<and> currentTurn rm' = Turn 1"
proof -
  let ?td = "\<lparr> hitPosition = None, hitColor = Null, trajectory = [] \<rparr>"
  note t = processDartThrow_miss_turn[where rm = example_room and pid = "''a''"
        and pl = "example_player ''a'' ''Alice'' True" and td = ?td
        and uuid = "''u1''" and now = 0]
  have p: "map_of (players example_room) ''a'' = Some (example_player ''a'' ''Alice'' True)"
    by (simp add: example_room_eq)
  have tc: "throwCount (example_player ''a'' ''Alice'' True) = 0"
    by (simp add: example_player_def)
  have "\<exists>res rm'.
             Room_processDartThrow example_room ''a'' ?td ''u1'' 0 = Inr (res, rm')
             \<and> playerColors rm' = playerColors example_room
             \<and> map_of (players rm') ''a''
                 = Some ((example_player ''a'' ''Alice'' True)
                     \<lparr> throwCount := throwCount (example_player ''a'' ''Alice'' True) + 1 \<rparr>)
             \<and> \<not> res_colorChanged res \<and> res_newColor res = None
             \<and> res_winner res = None
             \<and> gameState rm' = gameState example_room"
    using conjunct1[OF t] p by simp
  then obtain res rm' where r:
    "Room_processDartThrow example_room ''a'' ?td ''u1'' 0 = Inr (res, rm')"
    "playerColors rm' = playerColors example_room"
    "map_of (players rm') ''a''
       = Some ((example_player ''a'' ''Alice'' True)
           \<lparr> throwCount := throwCount (example_player ''a'' ''Alice'' True) + 1 \<rparr>)"
    "\<not> res_colorChanged res" "res_winner res = None"
    by (elim exE conjE)
  have turn0: "currentTurn example_room = Turn 0 \<and> turnOrder example_room \<noteq> []"
    by (simp add: example_room_eq)
  have len: "length (turnOrder example_room) = 3" by (simp add: example_room_eq)
  have "currentTurn rm' = Turn ((0 + 1) mod length (turnOrder example_room))"
    using conjunct1[OF conjunct2[OF t], THEN spec, THEN spec, THEN mp, OF r(1)] r(5) turn0
    by blast
  then have adv: "currentTurn rm' = Turn 1" by (simp add: len)
  show ?thesis
    using r adv tc by (intro exI[of _ res] exI[of _ rm']) simp
qed

section \<open>Properties of the coordinator\<close>

lemma resetPlayers_Cons:
  "resetPlayers ((k, pl) # rest) cs =
     ((k, pl\<lparr> throwCount := 0, currentColor := \<lparr>red = 128, green = 128, blue = 128\<rparr>,
            score := 0 \<rparr>)
        # fst (resetPlayers rest
                (AList.update (player_id pl) \<lparr>red = 128, green = 128, blue = 128\<rparr> cs)),
      snd (resetPlayers rest
             (AList.update (player_id pl) \<lparr>red = 128, green = 128, blue = 128\<rparr> cs)))"
  by (simp add: Let_def split: prod.splits)

lemma resetPlayers_players:
  "fst (resetPlayers ps cs) =
     map (\<lambda>(k, pl). (k, pl\<lparr> throwCount := 0,
            currentColor := \<lparr>red = 128, green = 128, blue = 128\<rparr>, score := 0 \<rparr>)) ps"
proof (induction ps arbitrary: cs)
  case Nil
  then show ?case by simp
next
  case (Cons a ps)
  obtain k pl where a: "a = (k, pl)" by (cases a)
  show ?case unfolding a resetPlayers_Cons using Cons.IH by simp
qed

lemma resetPlayers_colors:
  "map_of (snd (resetPlayers ps cs)) i =
     (if i \<in> player_id ` snd ` set ps then Some \<lparr>red = 128, green = 128, blue = 128\<rparr>
      else map_of cs i)"
proof (induction ps arbitrary: cs)
  case Nil
  then show ?case by simp
next
  case (Cons a ps)
  obtain k pl where a: "a = (k, pl)" by (cases a)
  show ?case unfolding a resetPlayers_Cons using Cons.IH
    by (auto simp add: update_conv')
qed

lemma Room_startGame_fields:
  "gameState (Room_startGame rm t) = playing"
  "targetColor (Room_startGame rm t) = t"
  "turnOrder (Room_startGame rm t) = map fst (players rm)"
  "currentTurn (Room_startGame rm t) = Turn 0"
  "throws (Room_startGame rm t) = []"
  "players (Room_startGame rm t) = fst (resetPlayers (players rm) (playerColors rm))"
  "playerColors (Room_startGame rm t) = snd (resetPlayers (players rm) (playerColors rm))"
  "roomCode (Room_startGame rm t) = roomCode rm"
  "hostId (Room_startGame rm t) = hostId rm"
  by (simp_all add: Room_startGame_def Let_def split: prod.splits)

lemma length_update_le: "length (AList.update k v al) \<le> Suc (length al)"
  by (induction al) auto

lemma players_addPlayer:
  "players (snd (Room_addPlayer rm pid nm)) = AList.update pid (fst (Room_addPlayer rm pid nm)) (players rm)"
  by (simp add: Room_addPlayer_def Let_def)

lemma fst_addPlayer:
  "player_id (fst (Room_addPlayer rm pid nm)) = pid \<and> name (fst (Room_addPlayer rm pid nm)) = nm"
  by (simp add: Room_addPlayer_def Let_def)

lemma joinRoom_code_cases:
  assumes "code \<noteq> []"
  shows "snd (GameManager_joinRoom gm pid nm (Some code) cd ud) = gm
     \<or> (\<exists>rm. map_of (rooms gm) code = Some rm \<and> length (players rm) < 4
           \<and> gameState rm = waiting
           \<and> snd (GameManager_joinRoom gm pid nm (Some code) cd ud)
               = gm\<lparr> rooms := AList.update code (snd (Room_addPlayer rm pid nm)) (rooms gm),
                     playerRooms := AList.update pid code (playerRooms gm) \<rparr>)"
proof (cases "map_of (rooms gm) code")
  case None
  then show ?thesis using assms by (simp add: GameManager_joinRoom_def falsy_def)
next
  case (Some rm)
  then show ?thesis using assms
    by (simp add: GameManager_joinRoom_def falsy_def split: prod.splits)
qed

lemma joinRoom_size_bound:
  assumes "code \<noteq> []"
    and "\<forall>c r. map_of (rooms gm) c = Some r \<longrightarrow> length (players r) \<le> 4"
    and "map_of (rooms (snd (GameManager_joinRoom gm pid nm (Some code) cd ud))) c = Some r"
  shows "length (players r) \<le> 4"
proof -
  from joinRoom_code_cases[OF assms(1), of gm pid nm cd ud]
  consider (same) "snd (GameManager_joinRoom gm pid nm (Some code) cd ud) = gm"
    | (add) rm where "map_of (rooms gm) code = Some rm" "length (players rm) < 4"
        "snd (GameManager_joinRoom gm pid nm (Some code) cd ud)
               = gm\<lparr> rooms := AList.update code (snd (Room_addPlayer rm pid nm)) (rooms gm),
                     playerRooms := AList.update pid code (playerRooms gm) \<rparr>"
    by blast
  then show ?thesis
  proof cases
    case same
    then show ?thesis using assms by simp
  next
    case add
    have "length (players (snd (Room_addPlayer rm pid nm))) \<le> 4"
      using add(2) length_update_le[of pid "fst (Room_addPlayer rm pid nm)" "players rm"]
      by (simp add: players_addPlayer)
    then show ?thesis using assms(2,3) add(3) by (auto simp add: update_conv' split: if_splits)
  qed
qed

lemma generateRoomCode_zero: "generateRoomCode (0, 0, 0, 0) = ''AAAA''"
  by (simp add: generateRoomCode_def chars_def charAt_def)

lemma example_solo_eq:
  "example_solo = \<lparr> rooms = [(''AAAA'', example_waiting_room [(''a'', ''Alice'')])],
                    playerRooms = [(''a'', ''AAAA'')] \<rparr>"
  by (simp add: example_solo_def run_def new_GameManager_def GameManager_createRoom_def
      generateRoomCode_zero new_Room_def Room_addPlayer_def Let_def example_waiting_room_def)

lemma example_lobby_eq:
  "example_lobby =
     \<lparr> rooms = [(''AAAA'', example_waiting_room [(''a'', ''Alice''), (''b'', ''Bob'')])],
       playerRooms = [(''a'', ''AAAA''), (''b'', ''AAAA'')] \<rparr>"
  by (simp add: example_lobby_def run_def new_GameManager_def GameManager_createRoom_def
      GameManager_joinRoom_def falsy_def
      generateRoomCode_zero new_Room_def Room_addPlayer_def Let_def example_waiting_room_def)

lemma example_full_eq:
  "example_full =
     \<lparr> rooms = [(''AAAA'', example_waiting_room
                    [(''a'', ''Alice''), (''b'', ''Bob''), (''c'', ''Cy''), (''d'', ''Di'')])],
       playerRooms = [(''a'', ''AAAA''), (''b'', ''AAAA''), (''c'', ''AAAA''), (''d'', ''AAAA'')] \<rparr>"
  by (simp add: example_full_def run_def new_GameManager_def GameManager_createRoom_def
      GameManager_joinRoom_def falsy_def
      generateRoomCode_zero new_Room_def Room_addPlayer_def Let_def example_waiting_room_def)

lemma example_started_eq:
  "example_started =
     \<lparr> rooms = [(''AAAA'',
          Room_startGame (example_waiting_room [(''a'', ''Alice''), (''b'', ''Bob'')])
            (generateRandomColor 0 0 0))],
       playerRooms = [(''a'', ''AAAA''), (''b'', ''AAAA'')] \<rparr>"
  by (simp add: example_started_def example_lobby_eq GameManager_startGame_def Let_def
      example_waiting_room_def)

lemma example_waiting_room_sel:
  "hostId (example_waiting_room ps) = ''a''"
  "length (players (example_waiting_room ps)) = length ps"
  "gameState (example_waiting_room ps) = waiting"
  "targetColor (example_waiting_room ps) = generateRandomColor 0 0 0"
  "map fst (players (example_waiting_room ps)) = map fst ps"
  by (simp_all add: example_waiting_room_def comp_def case_prod_unfold)

text \<open>
  C4. For a room of the registry, \<open>startGame\<close> fails with the not-host message when the
  requester is not the stored host; asked by the host it fails with the too-few-players
  message when the room has fewer than 2 players (so a room with fewer than 2 players is
  never started); otherwise it succeeds, and then the room is \<open>playing\<close>, its turn order
  is the list of the player ids in join order, \<open>currentTurn\<close> is 0, the throw list is
  empty, and every player has throw count 0, score 0 and the color (128, 128, 128), in the
  player object and in \<open>playerColors\<close>.
\<close>

theorem startGame_coordinator:
  "map_of (rooms gm) code = Some rm \<longrightarrow>
     (hostId rm \<noteq> requester \<longrightarrow>
        GameManager_startGame gm code requester
          = (StartFailure ''Only the host can start the game'', gm))
   \<and> (hostId rm = requester \<and> length (players rm) < 2 \<longrightarrow>
        GameManager_startGame gm code requester
          = (StartFailure ''Need at least 2 players to start'', gm))
   \<and> (length (players rm) < 2 \<longrightarrow>
        (\<exists>msg. GameManager_startGame gm code requester = (StartFailure msg, gm)))
   \<and> (hostId rm = requester \<and> 2 \<le> length (players rm) \<longrightarrow>
        (\<exists>st gm' rm'.
           GameManager_startGame gm code requester = (StartSuccess st (targetColor rm), gm')
           \<and> map_of (rooms gm') code = Some rm'
           \<and> gameState rm' = playing
           \<and> turnOrder rm' = map fst (players rm)
           \<and> currentTurn rm' = Turn 0
           \<and> throws rm' = []
           \<and> map fst (players rm') = map fst (players rm)
           \<and> (\<forall>(k, pl) \<in> set (players rm').
                 throwCount pl = 0 \<and> score pl = 0
                 \<and> currentColor pl = \<lparr>red = 128, green = 128, blue = 128\<rparr>
                 \<and> map_of (playerColors rm') (player_id pl)
                     = Some \<lparr>red = 128, green = 128, blue = 128\<rparr>)))"
proof (intro impI conjI)
  assume rm: "map_of (rooms gm) code = Some rm"
  show "GameManager_startGame gm code requester
          = (StartFailure ''Only the host can start the game'', gm)"
    if "hostId rm \<noteq> requester"
    using rm that by (simp add: GameManager_startGame_def)
  show "GameManager_startGame gm code requester
          = (StartFailure ''Need at least 2 players to start'', gm)"
    if "hostId rm = requester \<and> length (players rm) < 2"
    using rm that by (simp add: GameManager_startGame_def)
  show "\<exists>msg. GameManager_startGame gm code requester = (StartFailure msg, gm)"
    if "length (players rm) < 2"
    using rm that by (simp add: GameManager_startGame_def)
  show "\<exists>st gm' rm'.
           GameManager_startGame gm code requester = (StartSuccess st (targetColor rm), gm')
           \<and> map_of (rooms gm') code = Some rm'
           \<and> gameState rm' = playing
           \<and> turnOrder rm' = map fst (players rm)
           \<and> currentTurn rm' = Turn 0
           \<and> throws rm' = []
           \<and> map fst (players rm') = map fst (players rm)
           \<and> (\<forall>(k, pl) \<in> set (players rm').
                 throwCount pl = 0 \<and> score pl = 0
                 \<and> currentColor pl = \<lparr>red = 128, green = 128, blue = 128\<rparr>
                 \<and> map_of (playerColors rm') (player_id pl)
                     = Some \<lparr>red = 128, green = 128, blue = 128\<rparr>)"
    if h: "hostId rm = requester \<and> 2 \<le> length (players rm)"
  proof -
    define rm' where "rm' = Room_startGame rm (targetColor rm)"
    have call: "GameManager_startGame gm code requester
        = (StartSuccess (Room_getState rm') (targetColor rm),
           gm\<lparr> rooms := AList.update code rm' (rooms gm) \<rparr>)"
      using rm h by (simp add: GameManager_startGame_def Let_def rm'_def Room_startGame_fields)
    have look: "map_of (rooms (gm\<lparr> rooms := AList.update code rm' (rooms gm) \<rparr>)) code = Some rm'"
      by (simp add: update_conv')
    have keys: "map fst (players rm') = map fst (players rm)"
      by (simp add: rm'_def Room_startGame_fields resetPlayers_players comp_def case_prod_unfold)
    have each: "\<forall>(k, pl) \<in> set (players rm').
                 throwCount pl = 0 \<and> score pl = 0
                 \<and> currentColor pl = \<lparr>red = 128, green = 128, blue = 128\<rparr>
                 \<and> map_of (playerColors rm') (player_id pl)
                     = Some \<lparr>red = 128, green = 128, blue = 128\<rparr>"
      by (force simp add: rm'_def Room_startGame_fields resetPlayers_players resetPlayers_colors)
    show ?thesis
      using call look keys each
      by (simp add: rm'_def[symmetric] Room_startGame_fields) (simp add: rm'_def Room_startGame_fields)
  qed
qed

theorem startGame_coordinator_witness:
  "GameManager_startGame example_lobby ''AAAA'' ''b''
     = (StartFailure ''Only the host can start the game'', example_lobby)
   \<and> GameManager_startGame example_solo ''AAAA'' ''a''
     = (StartFailure ''Need at least 2 players to start'', example_solo)
   \<and> (\<exists>st gm' rm'.
         GameManager_startGame example_lobby ''AAAA'' ''a''
           = (StartSuccess st (generateRandomColor 0 0 0), gm')
         \<and> map_of (rooms gm') ''AAAA'' = Some rm'
         \<and> gameState rm' = playing \<and> turnOrder rm' = [''a'', ''b'']
         \<and> currentTurn rm' = Turn 0 \<and> throws rm' = [])"
proof -
  have l2: "map_of (rooms example_lobby) ''AAAA''
      = Some (example_waiting_room [(''a'', ''Alice''), (''b'', ''Bob'')])"
    by (simp add: example_lobby_eq)
  have l1: "map_of (rooms example_solo) ''AAAA'' = Some (example_waiting_room [(''a'', ''Alice'')])"
    by (simp add: example_solo_eq)
  have a: "GameManager_startGame example_lobby ''AAAA'' ''b''
     = (StartFailure ''Only the host can start the game'', example_lobby)"
    using startGame_coordinator[where gm = example_lobby and code = "''AAAA''"
        and rm = "example_waiting_room [(''a'', ''Alice''), (''b'', ''Bob'')]"
        and requester = "''b''"] l2
    by (simp add: example_waiting_room_sel)
  have b: "GameManager_startGame example_solo ''AAAA'' ''a''
     = (StartFailure ''Need at least 2 players to start'', example_solo)"
    using startGame_coordinator[where gm = example_solo and code = "''AAAA''"
        and rm = "example_waiting_room [(''a'', ''Alice'')]"
        and requester = "''a''"] l1
    by (simp add: example_waiting_room_sel)
  have c: "\<exists>st gm' rm'.
         GameManager_startGame example_lobby ''AAAA'' ''a''
           = (StartSuccess st (generateRandomColor 0 0 0), gm')
         \<and> map_of (rooms gm') ''AAAA'' = Some rm'
         \<and> gameState rm' = playing \<and> turnOrder rm' = [''a'', ''b'']
         \<and> currentTurn rm' = Turn 0 \<and> throws rm' = []"
    using startGame_coordinator[where gm = example_lobby and code = "''AAAA''"
        and rm = "example_waiting_room [(''a'', ''Alice''), (''b'', ''Bob'')]"
        and requester = "''a''"] l2
    by (simp add: example_waiting_room_sel) blast
  show ?thesis using a b c by simp
qed


text \<open>
  C5. \<open>joinRoom\<close> with a room code (a non-empty string): it fails with the not-found
  message when the registry has no room of that code; with the room-full message when the
  room has 4 players or more; with the in-progress message when the room has fewer than 4
  players and is not \<open>waiting\<close> (so a room that is not \<open>waiting\<close> is never joined); and
  otherwise it succeeds, the player is in that room and indexed under its code. If no
  room had more than 4 players before, none has after.
\<close>

theorem joinRoom_with_code:
  "code \<noteq> [] \<longrightarrow>
     (map_of (rooms gm) code = None \<longrightarrow>
        GameManager_joinRoom gm pid nm (Some code) cd ud = (JoinFailure ''Room not found'', gm))
   \<and> (\<forall>rm. map_of (rooms gm) code = Some rm \<longrightarrow>
        (4 \<le> length (players rm) \<longrightarrow>
           GameManager_joinRoom gm pid nm (Some code) cd ud = (JoinFailure ''Room is full'', gm))
      \<and> (length (players rm) < 4 \<and> gameState rm \<noteq> waiting \<longrightarrow>
           GameManager_joinRoom gm pid nm (Some code) cd ud
             = (JoinFailure ''Game is already in progress'', gm))
      \<and> (gameState rm \<noteq> waiting \<longrightarrow>
           (\<exists>msg. GameManager_joinRoom gm pid nm (Some code) cd ud = (JoinFailure msg, gm)))
      \<and> (length (players rm) < 4 \<and> gameState rm = waiting \<longrightarrow>
           (\<exists>pl st gm' rm'.
              GameManager_joinRoom gm pid nm (Some code) cd ud = (JoinSuccess code (Some pl) st, gm')
              \<and> map_of (rooms gm') code = Some rm'
              \<and> map_of (players rm') pid = Some pl
              \<and> player_id pl = pid \<and> name pl = nm
              \<and> set (map fst (players rm')) = insert pid (set (map fst (players rm)))
              \<and> length (players rm') \<le> 4
              \<and> map_of (playerRooms gm') pid = Some code)))
   \<and> ((\<forall>c r. map_of (rooms gm) c = Some r \<longrightarrow> length (players r) \<le> 4) \<longrightarrow>
        (\<forall>c r. map_of (rooms (snd (GameManager_joinRoom gm pid nm (Some code) cd ud))) c = Some r
           \<longrightarrow> length (players r) \<le> 4))"
proof (intro impI conjI allI)
  assume c: "code \<noteq> []"
  show "GameManager_joinRoom gm pid nm (Some code) cd ud = (JoinFailure ''Room not found'', gm)"
    if "map_of (rooms gm) code = None"
    using c that by (simp add: GameManager_joinRoom_def falsy_def)
  show "GameManager_joinRoom gm pid nm (Some code) cd ud = (JoinFailure ''Room is full'', gm)"
    if "map_of (rooms gm) code = Some rm" "4 \<le> length (players rm)" for rm
    using c that by (simp add: GameManager_joinRoom_def falsy_def)
  show "GameManager_joinRoom gm pid nm (Some code) cd ud
             = (JoinFailure ''Game is already in progress'', gm)"
    if "map_of (rooms gm) code = Some rm" "length (players rm) < 4 \<and> gameState rm \<noteq> waiting" for rm
    using c that by (simp add: GameManager_joinRoom_def falsy_def)
  show "\<exists>msg. GameManager_joinRoom gm pid nm (Some code) cd ud = (JoinFailure msg, gm)"
    if "map_of (rooms gm) code = Some rm" "gameState rm \<noteq> waiting" for rm
    using c that by (simp add: GameManager_joinRoom_def falsy_def)
  show "\<exists>pl st gm' rm'.
              GameManager_joinRoom gm pid nm (Some code) cd ud = (JoinSuccess code (Some pl) st, gm')
              \<and> map_of (rooms gm') code = Some rm'
              \<and> map_of (players rm') pid = Some pl
              \<and> player_id pl = pid \<and> name pl = nm
              \<and> set (map fst (players rm')) = insert pid (set (map fst (players rm)))
              \<and> length (players rm') \<le> 4
              \<and> map_of (playerRooms gm') pid = Some code"
    if rm: "map_of (rooms gm) code = Some rm" and ok: "length (players rm) < 4 \<and> gameState rm = waiting"
    for rm
  proof -
    define pl where "pl = fst (Room_addPlayer rm pid nm)"
    define rm' where "rm' = snd (Room_addPlayer rm pid nm)"
    have call: "GameManager_joinRoom gm pid nm (Some code) cd ud
        = (JoinSuccess code (Some pl) (Room_getState rm'),
           gm\<lparr> rooms := AList.update code rm' (rooms gm),
               playerRooms := AList.update pid code (playerRooms gm) \<rparr>)"
      using c rm ok
      by (simp add: GameManager_joinRoom_def falsy_def pl_def rm'_def split: prod.splits)
    have ps: "players rm' = AList.update pid pl (players rm)"
      by (simp add: rm'_def pl_def players_addPlayer)
    have len: "length (players rm') \<le> 4"
      using ok length_update_le[of pid pl "players rm"] by (simp add: ps)
    have keys: "set (map fst (players rm')) = insert pid (set (map fst (players rm)))"
      by (simp add: ps update_keys) auto
    show ?thesis
      using call ps len keys fst_addPlayer[of rm pid nm]
      by (simp add: update_conv' pl_def)
  qed
  show "length (players r) \<le> 4"
    if "\<forall>c r. map_of (rooms gm) c = Some r \<longrightarrow> length (players r) \<le> 4"
      and "map_of (rooms (snd (GameManager_joinRoom gm pid nm (Some code) cd ud))) c' = Some r"
    for c' r
    using joinRoom_size_bound[OF c that] .
qed

theorem joinRoom_with_code_witness:
  "GameManager_joinRoom example_lobby ''c'' ''Cy'' (Some ''ZZZZ'') (0, 0, 0, 0) (0, 0, 0)
     = (JoinFailure ''Room not found'', example_lobby)
   \<and> GameManager_joinRoom example_full ''e'' ''Eve'' (Some ''AAAA'') (0, 0, 0, 0) (0, 0, 0)
     = (JoinFailure ''Room is full'', example_full)
   \<and> GameManager_joinRoom example_started ''c'' ''Cy'' (Some ''AAAA'') (0, 0, 0, 0) (0, 0, 0)
     = (JoinFailure ''Game is already in progress'', example_started)
   \<and> (\<exists>pl st gm' rm'.
         GameManager_joinRoom example_lobby ''c'' ''Cy'' (Some ''AAAA'') (0, 0, 0, 0) (0, 0, 0)
           = (JoinSuccess ''AAAA'' (Some pl) st, gm')
         \<and> map_of (rooms gm') ''AAAA'' = Some rm'
         \<and> map_of (players rm') ''c'' = Some pl
         \<and> set (map fst (players rm')) = {''c'', ''a'', ''b''}
         \<and> length (players rm') \<le> 4
         \<and> map_of (playerRooms gm') ''c'' = Some ''AAAA'')"
proof -
  have ne: "''AAAA'' \<noteq> []" "''ZZZZ'' \<noteq> []" by simp_all
  have l2: "map_of (rooms example_lobby) ''AAAA''
      = Some (example_waiting_room [(''a'', ''Alice''), (''b'', ''Bob'')])"
    by (simp add: example_lobby_eq)
  have lz: "map_of (rooms example_lobby) ''ZZZZ'' = None"
    by (simp add: example_lobby_eq)
  have l4: "map_of (rooms example_full) ''AAAA''
      = Some (example_waiting_room [(''a'', ''Alice''), (''b'', ''Bob''), (''c'', ''Cy''), (''d'', ''Di'')])"
    by (simp add: example_full_eq)
  have ls: "map_of (rooms example_started) ''AAAA''
      = Some (Room_startGame (example_waiting_room [(''a'', ''Alice''), (''b'', ''Bob'')])
            (generateRandomColor 0 0 0))"
    by (simp add: example_started_eq)
  have a: "GameManager_joinRoom example_lobby ''c'' ''Cy'' (Some ''ZZZZ'') (0, 0, 0, 0) (0, 0, 0)
     = (JoinFailure ''Room not found'', example_lobby)"
    by (rule conjunct1[OF joinRoom_with_code[THEN mp, OF ne(2)], THEN mp, OF lz])
  have b: "GameManager_joinRoom example_full ''e'' ''Eve'' (Some ''AAAA'') (0, 0, 0, 0) (0, 0, 0)
     = (JoinFailure ''Room is full'', example_full)"
    by (rule conjunct1[OF conjunct1[OF conjunct2[OF joinRoom_with_code[THEN mp, OF ne(1)]],
          THEN spec, THEN mp, OF l4], THEN mp])
      (simp add: example_waiting_room_sel)
  have c: "GameManager_joinRoom example_started ''c'' ''Cy'' (Some ''AAAA'') (0, 0, 0, 0) (0, 0, 0)
     = (JoinFailure ''Game is already in progress'', example_started)"
    by (rule conjunct1[OF conjunct2[OF conjunct1[OF conjunct2[OF
          joinRoom_with_code[THEN mp, OF ne(1)]], THEN spec, THEN mp, OF ls]], THEN mp])
      (simp add: example_waiting_room_sel Room_startGame_fields resetPlayers_players)
  have d0: "length (players (example_waiting_room [(''a'', ''Alice''), (''b'', ''Bob'')])) < 4
      \<and> gameState (example_waiting_room [(''a'', ''Alice''), (''b'', ''Bob'')]) = waiting"
    by (simp add: example_waiting_room_sel)
  note d1 = conjunct2[OF conjunct2[OF conjunct2[OF conjunct1[OF conjunct2[OF
          joinRoom_with_code[where pid = "''c''" and nm = "''Cy''" and cd = "(0, 0, 0, 0)"
            and ud = "(0, 0, 0)", THEN mp, OF ne(1)]],
          THEN spec, THEN mp, OF l2]]], THEN mp, OF d0]
  have d: "\<exists>pl st gm' rm'.
         GameManager_joinRoom example_lobby ''c'' ''Cy'' (Some ''AAAA'') (0, 0, 0, 0) (0, 0, 0)
           = (JoinSuccess ''AAAA'' (Some pl) st, gm')
         \<and> map_of (rooms gm') ''AAAA'' = Some rm'
         \<and> map_of (players rm') ''c'' = Some pl
         \<and> set (map fst (players rm')) = {''c'', ''a'', ''b''}
         \<and> length (players rm') \<le> 4
         \<and> map_of (playerRooms gm') ''c'' = Some ''AAAA''"
    using d1 by (elim exE conjE, intro exI conjI) (assumption | simp add: example_waiting_room_sel)+
  show ?thesis using a b c d by simp
qed

section \<open>Invariants over sequences of coordinator operations\<close>

lemma roomCode_addPlayer: "roomCode (snd (Room_addPlayer rm pid nm)) = roomCode rm"
  by (simp add: Room_addPlayer_def Let_def)

lemma keys_addPlayer:
  "fst ` set (players (snd (Room_addPlayer rm pid nm))) = insert pid (fst ` set (players rm))"
  by (simp add: Room_addPlayer_def Let_def dom_update)

lemma roomCode_new_Room: "roomCode (new_Room code host nm u) = code"
  by (simp add: new_Room_def Room_addPlayer_def Let_def split: prod.splits)

lemma keys_new_Room: "fst ` set (players (new_Room code host nm u)) = {host}"
  by (simp add: new_Room_def Room_addPlayer_def Let_def split: prod.splits)

lemma roomCode_removePlayer: "roomCode (Room_removePlayer rm pid) = roomCode rm"
  by (simp add: Room_removePlayer_def Let_def split: list.splits prod.splits)

lemma keys_delete: "fst ` set (AList.delete k al) = fst ` set al - {k}"
proof -
  have "set (map fst (AList.delete k al)) = set (map fst al) - {k}"
    by (simp add: delete_keys)
  then show ?thesis by simp
qed

lemma keys_removePlayer:
  "fst ` set (players (Room_removePlayer rm pid)) = fst ` set (players rm) - {pid}"
proof -
  have "fst ` set (players (Room_removePlayer rm pid)) = fst ` set (AList.delete pid (players rm))"
    by (cases "AList.delete pid (players rm)")
      (auto simp add: Room_removePlayer_def Let_def split: prod.splits)
  then show ?thesis by (simp add: keys_delete)
qed

lemma createRoom_state:
  "snd (GameManager_createRoom gm pid nm cd ud) =
     gm\<lparr> rooms := AList.update (generateRoomCode cd) (new_Room (generateRoomCode cd) pid nm ud) (rooms gm),
         playerRooms := AList.update pid (generateRoomCode cd) (playerRooms gm) \<rparr>"
  by (simp add: GameManager_createRoom_def Let_def)

lemma joinRoom_state:
  "(snd (GameManager_joinRoom gm pid nm code cd ud) = snd (GameManager_createRoom gm pid nm cd ud)
      \<and> falsy code \<and> falsy (GameManager_findAvailableRoom gm))
   \<or> snd (GameManager_joinRoom gm pid nm code cd ud) = gm
   \<or> (\<exists>c rm. map_of (rooms gm) c = Some rm
         \<and> snd (GameManager_joinRoom gm pid nm code cd ud)
             = gm\<lparr> rooms := AList.update c (snd (Room_addPlayer rm pid nm)) (rooms gm),
                   playerRooms := AList.update pid c (playerRooms gm) \<rparr>)"
proof (cases "falsy code \<and> falsy (GameManager_findAvailableRoom gm)")
  case True
  then show ?thesis by (simp add: GameManager_joinRoom_def Let_def)
next
  case False
  define c1 where "c1 = (if falsy code then GameManager_findAvailableRoom gm else code)"
  have j: "GameManager_joinRoom gm pid nm code cd ud =
     (case c1 of
              None \<Rightarrow> (JoinFailure ''Room not found'', gm)
            | Some code \<Rightarrow>
                (case map_of (rooms gm) code of
                   None \<Rightarrow> (JoinFailure ''Room not found'', gm)
                 | Some rm \<Rightarrow>
                     if length (players rm) \<ge> 4 then (JoinFailure ''Room is full'', gm)
                     else if gameState rm \<noteq> waiting
                     then (JoinFailure ''Game is already in progress'', gm)
                     else
                       (case Room_addPlayer rm pid nm of
                          (player, rm') \<Rightarrow>
                            (JoinSuccess code (Some player) (Room_getState rm'),
                             gm\<lparr> rooms := AList.update code rm' (rooms gm),
                                 playerRooms :=
                                   AList.update pid code (playerRooms gm) \<rparr>))))"
    using False unfolding GameManager_joinRoom_def Let_def c1_def by presburger
  show ?thesis
  proof (cases c1)
    case None
    then show ?thesis unfolding j by simp
  next
    case c: (Some c)
    show ?thesis
    proof (cases "map_of (rooms gm) c")
      case None
      then show ?thesis unfolding j c by simp
    next
      case rm: (Some rm)
      show ?thesis
      proof (cases "length (players rm) \<ge> 4 \<or> gameState rm \<noteq> waiting")
        case True
        then have "snd (GameManager_joinRoom gm pid nm code cd ud) = gm"
          unfolding j c using rm by auto
        then show ?thesis by simp
      next
        case False
        then have "snd (GameManager_joinRoom gm pid nm code cd ud)
             = gm\<lparr> rooms := AList.update c (snd (Room_addPlayer rm pid nm)) (rooms gm),
                   playerRooms := AList.update pid c (playerRooms gm) \<rparr>"
          unfolding j c using rm by (simp split: prod.splits)
        then show ?thesis using rm by blast
      qed
    qed
  qed
qed

lemma removePlayer_state:
  "snd (GameManager_removePlayer gm pid) = gm
   \<or> (\<exists>c rm. map_of (playerRooms gm) pid = Some c \<and> map_of (rooms gm) c = Some rm
        \<and> snd (GameManager_removePlayer gm pid)
            = gm\<lparr> rooms := (if players (Room_removePlayer rm pid) = []
                             then AList.delete c (rooms gm)
                             else AList.update c (Room_removePlayer rm pid) (rooms gm)),
                  playerRooms := AList.delete pid (playerRooms gm) \<rparr>)"
  by (auto simp add: GameManager_removePlayer_def Let_def delete_update_same
      split: option.splits)

lemma registry_inv_update:
  assumes "registry_inv gm" and "roomCode r = c"
  shows "registry_inv (gm\<lparr> rooms := AList.update c r (rooms gm), playerRooms := idx \<rparr>)"
  using assms by (simp add: registry_inv_def distinct_update update_conv')

lemma registry_inv_delete:
  assumes "registry_inv gm"
  shows "registry_inv (gm\<lparr> rooms := AList.delete c (rooms gm), playerRooms := idx \<rparr>)"
  using assms by (simp add: registry_inv_def distinct_delete delete_conv')

lemma registry_inv_index:
  assumes "registry_inv gm"
  shows "registry_inv (gm\<lparr> playerRooms := idx \<rparr>)"
  using assms by (simp add: registry_inv_def)

lemma registry_inv_step: "registry_inv gm \<Longrightarrow> registry_inv (apply_operation gm x)"
proof (cases x)
  case (CreateRoom pid nm cd ud)
  assume "registry_inv gm"
  then show ?thesis
    unfolding CreateRoom apply_operation.simps createRoom_state
    by (intro registry_inv_update) (simp_all add: roomCode_new_Room)
next
  case (JoinRoom pid nm code cd ud)
  assume inv: "registry_inv gm"
  from joinRoom_state[of gm pid nm code cd ud]
  consider (create) "snd (GameManager_joinRoom gm pid nm code cd ud)
        = snd (GameManager_createRoom gm pid nm cd ud)"
    | (same) "snd (GameManager_joinRoom gm pid nm code cd ud) = gm"
    | (add) c rm where "map_of (rooms gm) c = Some rm"
        "snd (GameManager_joinRoom gm pid nm code cd ud)
             = gm\<lparr> rooms := AList.update c (snd (Room_addPlayer rm pid nm)) (rooms gm),
                   playerRooms := AList.update pid c (playerRooms gm) \<rparr>"
    by blast
  then show ?thesis
  proof cases
    case create
    show ?thesis
      unfolding JoinRoom apply_operation.simps create createRoom_state
      using inv by (intro registry_inv_update) (simp_all add: roomCode_new_Room)
  next
    case same
    then show ?thesis using inv by (simp add: JoinRoom)
  next
    case add
    have "roomCode rm = c" using inv add(1) by (simp add: registry_inv_def)
    then show ?thesis
      unfolding JoinRoom apply_operation.simps add(2)
      using inv by (intro registry_inv_update) (simp_all add: roomCode_addPlayer)
  qed
next
  case (RemovePlayer pid)
  assume inv: "registry_inv gm"
  from removePlayer_state[of gm pid]
  consider (same) "snd (GameManager_removePlayer gm pid) = gm"
    | (rem) c rm where "map_of (rooms gm) c = Some rm"
        "snd (GameManager_removePlayer gm pid)
            = gm\<lparr> rooms := (if players (Room_removePlayer rm pid) = []
                             then AList.delete c (rooms gm)
                             else AList.update c (Room_removePlayer rm pid) (rooms gm)),
                  playerRooms := AList.delete pid (playerRooms gm) \<rparr>"
    by blast
  then show ?thesis
  proof cases
    case same
    then show ?thesis using inv by (simp add: RemovePlayer)
  next
    case rem
    have "roomCode rm = c" using inv rem(1) by (simp add: registry_inv_def)
    then show ?thesis
      unfolding RemovePlayer apply_operation.simps rem(2)
      using inv registry_inv_update[where gm = gm and r = "Room_removePlayer rm pid" and c = c]
        registry_inv_delete[where gm = gm and c = c]
      by (simp add: roomCode_removePlayer)
  qed
qed

lemma registry_inv_foldl:
  "registry_inv gm \<Longrightarrow> registry_inv (foldl apply_operation gm xs)"
  by (induction xs arbitrary: gm) (simp_all add: registry_inv_step)

lemma registry_inv_run: "registry_inv (run xs)"
  unfolding run_def by (rule registry_inv_foldl) (simp add: registry_inv_def new_GameManager_def)

lemma registry_inv_codes:
  assumes "registry_inv gm"
  shows "distinct (map (\<lambda>(c, r). roomCode r) (rooms gm))"
proof -
  have "roomCode r = c" if "(c, r) \<in> set (rooms gm)" for c r
    using assms that by (simp add: registry_inv_def)
  then have eq: "map (\<lambda>(c, r). roomCode r) (rooms gm) = map fst (rooms gm)"
    by (intro map_cong) auto
  show ?thesis unfolding eq using assms by (simp add: registry_inv_def)
qed

lemma index_inv_add:
  assumes inv: "index_inv gm"
    and fresh: "map_of (playerRooms gm) pid = None"
    and keys: "fst ` set (players r) =
        insert pid (case map_of (rooms gm) c of None \<Rightarrow> {} | Some r0 \<Rightarrow> fst ` set (players r0))"
  shows "index_inv (gm\<lparr> rooms := AList.update c r (rooms gm),
                         playerRooms := AList.update pid c (playerRooms gm) \<rparr>)"
  unfolding index_inv_def
proof (intro allI)
  fix q d
  let ?gm' = "gm\<lparr> rooms := AList.update c r (rooms gm),
                         playerRooms := AList.update pid c (playerRooms gm) \<rparr>"
  have old: "(map_of (playerRooms gm) q = Some d)
        = (\<exists>r. map_of (rooms gm) d = Some r \<and> q \<in> fst ` set (players r))"
    using inv by (simp add: index_inv_def)
  have nopid: "\<not> (\<exists>r. map_of (rooms gm) d = Some r \<and> pid \<in> fst ` set (players r))"
    using inv fresh unfolding index_inv_def by (metis option.distinct(1))
  show "(map_of (playerRooms ?gm') q = Some d)
        = (\<exists>r. map_of (rooms ?gm') d = Some r \<and> q \<in> fst ` set (players r))"
  proof (cases "d = c")
    case True
    show ?thesis
    proof (cases "q = pid")
      case True
      then show ?thesis using \<open>d = c\<close> keys by (simp add: update_conv')
    next
      case False
      then show ?thesis using \<open>d = c\<close> keys old
        by (auto simp add: update_conv' split: option.splits)
    qed
  next
    case False
    show ?thesis
    proof (cases "q = pid")
      case True
      then show ?thesis using \<open>d \<noteq> c\<close> nopid by (auto simp add: update_conv')
    next
      case False
      then show ?thesis using \<open>d \<noteq> c\<close> old by (simp add: update_conv')
    qed
  qed
qed

lemma index_inv_remove:
  assumes inv: "index_inv gm"
    and idx: "map_of (playerRooms gm) pid = Some c"
    and rm: "map_of (rooms gm) c = Some rm"
    and keys: "fst ` set (players r') = fst ` set (players rm) - {pid}"
  shows "index_inv (gm\<lparr> rooms := (if players r' = [] then AList.delete c (rooms gm)
                                     else AList.update c r' (rooms gm)),
                         playerRooms := AList.delete pid (playerRooms gm) \<rparr>)"
  unfolding index_inv_def
proof (intro allI)
  fix q d
  let ?gm' = "gm\<lparr> rooms := (if players r' = [] then AList.delete c (rooms gm)
                                     else AList.update c r' (rooms gm)),
                         playerRooms := AList.delete pid (playerRooms gm) \<rparr>"
  have old: "(map_of (playerRooms gm) q = Some d)
        = (\<exists>r. map_of (rooms gm) d = Some r \<and> q \<in> fst ` set (players r))"
    using inv by (simp add: index_inv_def)
  have empty: "players r' = [] \<longleftrightarrow> fst ` set (players rm) - {pid} = {}"
    using keys by (cases "players r'") auto
  show "(map_of (playerRooms ?gm') q = Some d)
        = (\<exists>r. map_of (rooms ?gm') d = Some r \<and> q \<in> fst ` set (players r))"
  proof (cases "d = c")
    case True
    have "(map_of (playerRooms ?gm') q = Some d) = (q \<noteq> pid \<and> q \<in> fst ` set (players rm))"
      using True old rm by (auto simp add: delete_conv')
    moreover have "(\<exists>r. map_of (rooms ?gm') d = Some r \<and> q \<in> fst ` set (players r))
        = (q \<in> fst ` set (players rm) - {pid})"
      using True keys empty by (auto simp add: delete_conv' update_conv')
    ultimately show ?thesis by auto
  next
    case False
    have "map_of (rooms ?gm') d = map_of (rooms gm) d"
      using False by (simp add: delete_conv' update_conv')
    moreover have "(map_of (playerRooms ?gm') q = Some d) = (map_of (playerRooms gm) q = Some d)"
      using False idx by (auto simp add: delete_conv')
    ultimately show ?thesis using old by simp
  qed
qed

lemma index_inv_step:
  assumes inv: "index_inv gm" and fresh: "fresh_op gm x"
  shows "index_inv (apply_operation gm x)"
proof (cases x)
  case (CreateRoom pid nm cd ud)
  show ?thesis
    unfolding CreateRoom apply_operation.simps createRoom_state
    using inv fresh by (intro index_inv_add) (simp_all add: CreateRoom keys_new_Room)
next
  case (JoinRoom pid nm code cd ud)
  from joinRoom_state[of gm pid nm code cd ud]
  consider (create) "snd (GameManager_joinRoom gm pid nm code cd ud)
        = snd (GameManager_createRoom gm pid nm cd ud)"
        "falsy code \<and> falsy (GameManager_findAvailableRoom gm)"
    | (same) "snd (GameManager_joinRoom gm pid nm code cd ud) = gm"
    | (add) c rm where "map_of (rooms gm) c = Some rm"
        "snd (GameManager_joinRoom gm pid nm code cd ud)
             = gm\<lparr> rooms := AList.update c (snd (Room_addPlayer rm pid nm)) (rooms gm),
                   playerRooms := AList.update pid c (playerRooms gm) \<rparr>"
    by blast
  then show ?thesis
  proof cases
    case create
    show ?thesis
      unfolding JoinRoom apply_operation.simps create(1) createRoom_state
      using inv fresh create(2) by (intro index_inv_add) (simp_all add: JoinRoom keys_new_Room)
  next
    case same
    then show ?thesis using inv by (simp add: JoinRoom)
  next
    case add
    show ?thesis
      unfolding JoinRoom apply_operation.simps add(2)
      using inv fresh add(1) by (intro index_inv_add) (simp_all add: JoinRoom keys_addPlayer)
  qed
next
  case (RemovePlayer pid)
  from removePlayer_state[of gm pid]
  consider (same) "snd (GameManager_removePlayer gm pid) = gm"
    | (rem) c rm where "map_of (playerRooms gm) pid = Some c" "map_of (rooms gm) c = Some rm"
        "snd (GameManager_removePlayer gm pid)
            = gm\<lparr> rooms := (if players (Room_removePlayer rm pid) = []
                             then AList.delete c (rooms gm)
                             else AList.update c (Room_removePlayer rm pid) (rooms gm)),
                  playerRooms := AList.delete pid (playerRooms gm) \<rparr>"
    by blast
  then show ?thesis
  proof cases
    case same
    then show ?thesis using inv by (simp add: RemovePlayer)
  next
    case rem
    show ?thesis
      unfolding RemovePlayer apply_operation.simps rem(3)
      using inv rem(1,2) by (intro index_inv_remove) (simp_all add: keys_removePlayer)
  qed
qed

lemma index_inv_foldl:
  "index_inv gm \<Longrightarrow> fresh_ops gm xs \<Longrightarrow> index_inv (foldl apply_operation gm xs)"
  by (induction xs arbitrary: gm) (simp_all add: index_inv_step)

lemma index_inv_run: "fresh_ops new_GameManager xs \<Longrightarrow> index_inv (run xs)"
  unfolding run_def by (rule index_inv_foldl) (simp_all add: index_inv_def new_GameManager_def)

lemma generateRoomCode_B: "generateRoomCode (1 / 32, 1 / 32, 1 / 32, 1 / 32) = ''BBBB''"
  by (simp add: generateRoomCode_def chars_def charAt_def)

lemma new_Room_players:
  "players (new_Room code host nm u) =
     [(host, \<lparr> player_id = host, name = nm, isHost = True, isReady = False, throwCount = 0,
               currentColor = \<lparr>red = 0, green = 0, blue = 0\<rparr>, score = 0 \<rparr>)]"
  by (simp add: new_Room_def Room_addPlayer_def Let_def split: prod.splits)

lemma run_snoc: "run (xs @ [x]) = apply_operation (run xs) x"
  by (simp add: run_def)

lemma example_ops_1: "run [CreateRoom ''a'' ''Alice'' (0, 0, 0, 0) (0, 0, 0)] = example_solo"
  by (simp add: example_solo_def)

lemma example_ops_2:
  "run [CreateRoom ''a'' ''Alice'' (0, 0, 0, 0) (0, 0, 0),
      JoinRoom ''b'' ''Bob'' (Some ''AAAA'') (0, 0, 0, 0) (0, 0, 0)] = example_lobby"
  by (simp add: example_lobby_def)

lemma example_ops_3:
  "run [CreateRoom ''a'' ''Alice'' (0, 0, 0, 0) (0, 0, 0),
      JoinRoom ''b'' ''Bob'' (Some ''AAAA'') (0, 0, 0, 0) (0, 0, 0),
      CreateRoom ''c'' ''Cy'' (1 / 32, 1 / 32, 1 / 32, 1 / 32) (0, 0, 0)]
   = \<lparr> rooms = [(''AAAA'', example_waiting_room [(''a'', ''Alice''), (''b'', ''Bob'')]),
                (''BBBB'', new_Room ''BBBB'' ''c'' ''Cy'' (0, 0, 0))],
       playerRooms = [(''a'', ''AAAA''), (''b'', ''AAAA''), (''c'', ''BBBB'')] \<rparr>"
  using run_snoc[of "[CreateRoom ''a'' ''Alice'' (0, 0, 0, 0) (0, 0, 0),
      JoinRoom ''b'' ''Bob'' (Some ''AAAA'') (0, 0, 0, 0) (0, 0, 0)]"
      "CreateRoom ''c'' ''Cy'' (1 / 32, 1 / 32, 1 / 32, 1 / 32) (0, 0, 0)"]
  by (simp add: example_ops_2 example_lobby_eq createRoom_state generateRoomCode_B)

lemma example_fresh: "fresh_ops new_GameManager example_ops"
proof -
  have 0: "fresh_op new_GameManager (CreateRoom ''a'' ''Alice'' (0, 0, 0, 0) (0, 0, 0))"
    by (simp add: new_GameManager_def)
  have 1: "fresh_op example_solo (JoinRoom ''b'' ''Bob'' (Some ''AAAA'') (0, 0, 0, 0) (0, 0, 0))"
    by (simp add: example_solo_eq falsy_def)
  have 2: "fresh_op example_lobby
      (CreateRoom ''c'' ''Cy'' (1 / 32, 1 / 32, 1 / 32, 1 / 32) (0, 0, 0))"
    by (simp add: example_lobby_eq generateRoomCode_B)
  have s1: "apply_operation new_GameManager (CreateRoom ''a'' ''Alice'' (0, 0, 0, 0) (0, 0, 0))
      = example_solo"
    using example_ops_1 by (simp add: run_def)
  have s2: "apply_operation example_solo
      (JoinRoom ''b'' ''Bob'' (Some ''AAAA'') (0, 0, 0, 0) (0, 0, 0)) = example_lobby"
    using example_ops_2 s1 by (simp add: run_def)
  show ?thesis
    unfolding example_ops_def using 0 1 2 by (simp only: fresh_ops.simps fresh_op.simps s1 s2) simp
qed

text \<open>
  C6, as the code has it. After every sequence of \<open>createRoom\<close>, \<open>joinRoom\<close> and
  \<open>removePlayer\<close> calls on a new coordinator, the room codes of the registered rooms are
  pairwise distinct, the registry being a map keyed by the code. \<open>createRoom\<close> does not
  look the generated code up: it always succeeds with that code and registers the new room
  under it, whatever the registry held there, and leaves every other code as it was.
\<close>

theorem registry_codes_distinct:
  "distinct (map (\<lambda>(c, r). roomCode r) (rooms (run ops)))
   \<and> distinct (map fst (rooms (run ops)))
   \<and> (\<forall>(c, r) \<in> set (rooms (run ops)). roomCode r = c)
   \<and> (\<forall>gm pid nm cd ud.
        (\<exists>pl st. fst (GameManager_createRoom gm pid nm cd ud)
                   = JoinSuccess (generateRoomCode cd) pl st)
        \<and> map_of (rooms (snd (GameManager_createRoom gm pid nm cd ud))) (generateRoomCode cd)
            = Some (new_Room (generateRoomCode cd) pid nm ud)
        \<and> (\<forall>c. c \<noteq> generateRoomCode cd \<longrightarrow>
              map_of (rooms (snd (GameManager_createRoom gm pid nm cd ud))) c
                = map_of (rooms gm) c))"
proof (intro conjI allI)
  have inv: "registry_inv (run ops)" by (rule registry_inv_run)
  show "distinct (map (\<lambda>(c, r). roomCode r) (rooms (run ops)))"
    using inv by (rule registry_inv_codes)
  show "distinct (map fst (rooms (run ops)))"
    using inv by (simp add: registry_inv_def)
  show "\<forall>(c, r) \<in> set (rooms (run ops)). roomCode r = c"
    using inv by (auto simp add: registry_inv_def)
next
  fix gm pid nm cd ud
  show "\<exists>pl st. fst (GameManager_createRoom gm pid nm cd ud)
                   = JoinSuccess (generateRoomCode cd) pl st"
    by (simp add: GameManager_createRoom_def Let_def)
  show "map_of (rooms (snd (GameManager_createRoom gm pid nm cd ud))) (generateRoomCode cd)
            = Some (new_Room (generateRoomCode cd) pid nm ud)"
    by (simp add: createRoom_state update_conv')
  show "\<And>c. c \<noteq> generateRoomCode cd \<longrightarrow>
              map_of (rooms (snd (GameManager_createRoom gm pid nm cd ud))) c
                = map_of (rooms gm) c"
    by (simp add: createRoom_state update_conv')
qed

theorem registry_codes_distinct_witness:
  "distinct (map (\<lambda>(c, r). roomCode r) (rooms (run example_ops)))
   \<and> roster (run example_ops) = [(''AAAA'', [''b'']), (''BBBB'', [''c''])]
   \<and> map_of (rooms (snd (GameManager_createRoom example_solo ''b'' ''Bob'' (0, 0, 0, 0) (0, 0, 0))))
        ''AAAA'' = Some (new_Room ''AAAA'' ''b'' ''Bob'' (0, 0, 0))"
proof -
  note t = registry_codes_distinct[of example_ops]
  have a: "distinct (map (\<lambda>(c, r). roomCode r) (rooms (run example_ops)))"
    using t by simp
  have "run example_ops
      = apply_operation \<lparr> rooms = [(''AAAA'', example_waiting_room [(''a'', ''Alice''), (''b'', ''Bob'')]),
                (''BBBB'', new_Room ''BBBB'' ''c'' ''Cy'' (0, 0, 0))],
       playerRooms = [(''a'', ''AAAA''), (''b'', ''AAAA''), (''c'', ''BBBB'')] \<rparr> (RemovePlayer ''a'')"
    using run_snoc[of "[CreateRoom ''a'' ''Alice'' (0, 0, 0, 0) (0, 0, 0),
      JoinRoom ''b'' ''Bob'' (Some ''AAAA'') (0, 0, 0, 0) (0, 0, 0),
      CreateRoom ''c'' ''Cy'' (1 / 32, 1 / 32, 1 / 32, 1 / 32) (0, 0, 0)]" "RemovePlayer ''a''"]
    by (simp add: example_ops_def example_ops_3)
  then have b: "roster (run example_ops) = [(''AAAA'', [''b'']), (''BBBB'', [''c''])]"
    by (simp add: roster_def GameManager_removePlayer_def Room_removePlayer_def Let_def
        example_waiting_room_def new_Room_players turn_ge_def)
  have c: "map_of (rooms (snd (GameManager_createRoom example_solo ''b'' ''Bob'' (0, 0, 0, 0) (0, 0, 0))))
        ''AAAA'' = Some (new_Room ''AAAA'' ''b'' ''Bob'' (0, 0, 0))"
    using t generateRoomCode_zero by metis
  show ?thesis using a b c by simp
qed

text \<open>
  The claim C6 as stated fails: with the same four draws the generator returns AAAA
  again, and the second \<open>createRoom\<close> succeeds with the code of Alice's active room. Her
  room is gone from the registry, the room AAAA now holds Bob alone, and Alice is still
  indexed under AAAA.
\<close>

theorem createRoom_reuses_code:
  "roster example_solo = [(''AAAA'', [''a''])]
   \<and> fst (GameManager_createRoom example_solo ''b'' ''Bob'' (0, 0, 0, 0) (0, 0, 0))
       = JoinSuccess ''AAAA''
           (map_of (players (new_Room ''AAAA'' ''b'' ''Bob'' (0, 0, 0))) ''b'')
           (Room_getState (new_Room ''AAAA'' ''b'' ''Bob'' (0, 0, 0)))
   \<and> roster (snd (GameManager_createRoom example_solo ''b'' ''Bob'' (0, 0, 0, 0) (0, 0, 0)))
       = [(''AAAA'', [''b''])]
   \<and> playerRooms (snd (GameManager_createRoom example_solo ''b'' ''Bob'' (0, 0, 0, 0) (0, 0, 0)))
       = [(''a'', ''AAAA''), (''b'', ''AAAA'')]"
  by (simp add: roster_def example_solo_eq GameManager_createRoom_def Let_def
      generateRoomCode_zero new_Room_players example_waiting_room_def)

text \<open>
  C7, as the code has it. The coordinator never checks whether the player of a
  \<open>createRoom\<close> or \<open>joinRoom\<close> call is already in a room. For every sequence of calls in
  which each such call is made for a player who is in no room at that moment (and no new
  room gets a code that is in use), the reverse index agrees with membership and no
  player id is in the player maps of two registered rooms.
\<close>

theorem one_room_per_player:
  "fresh_ops new_GameManager ops \<longrightarrow>
     (\<forall>pid c. (map_of (playerRooms (run ops)) pid = Some c)
        = (\<exists>r. map_of (rooms (run ops)) c = Some r \<and> pid \<in> fst ` set (players r)))
   \<and> (\<forall>pid c1 r1 c2 r2.
         (c1, r1) \<in> set (rooms (run ops)) \<and> (c2, r2) \<in> set (rooms (run ops))
         \<and> pid \<in> fst ` set (players r1) \<and> pid \<in> fst ` set (players r2)
         \<longrightarrow> c1 = c2 \<and> r1 = r2)"
proof (intro impI conjI allI)
  assume fresh: "fresh_ops new_GameManager ops"
  have idx: "index_inv (run ops)" using fresh by (rule index_inv_run)
  have reg: "registry_inv (run ops)" by (rule registry_inv_run)
  show "(map_of (playerRooms (run ops)) pid = Some c)
        = (\<exists>r. map_of (rooms (run ops)) c = Some r \<and> pid \<in> fst ` set (players r))" for pid c
    using idx by (simp add: index_inv_def)
  show "c1 = c2" "r1 = r2"
    if h: "(c1, r1) \<in> set (rooms (run ops)) \<and> (c2, r2) \<in> set (rooms (run ops))
         \<and> pid \<in> fst ` set (players r1) \<and> pid \<in> fst ` set (players r2)"
    for pid c1 r1 c2 r2
  proof -
    have d: "distinct (map fst (rooms (run ops)))" using reg by (simp add: registry_inv_def)
    have m1: "map_of (rooms (run ops)) c1 = Some r1" using h d by simp
    have m2: "map_of (rooms (run ops)) c2 = Some r2" using h d by simp
    have "map_of (playerRooms (run ops)) pid = Some c1"
      using idx m1 h unfolding index_inv_def by blast
    moreover have "map_of (playerRooms (run ops)) pid = Some c2"
      using idx m2 h unfolding index_inv_def by blast
    ultimately show "c1 = c2" by simp
    then show "r1 = r2" using m1 m2 by simp
  qed
qed

theorem one_room_per_player_witness:
  "fresh_ops new_GameManager example_ops
   \<and> roster (run example_ops) = [(''AAAA'', [''b'']), (''BBBB'', [''c''])]
   \<and> (map_of (playerRooms (run example_ops)) ''b'' = Some ''AAAA'')
       = (\<exists>r. map_of (rooms (run example_ops)) ''AAAA'' = Some r \<and> ''b'' \<in> fst ` set (players r))"
proof -
  have "run example_ops
      = apply_operation \<lparr> rooms = [(''AAAA'', example_waiting_room [(''a'', ''Alice''), (''b'', ''Bob'')]),
                (''BBBB'', new_Room ''BBBB'' ''c'' ''Cy'' (0, 0, 0))],
       playerRooms = [(''a'', ''AAAA''), (''b'', ''AAAA''), (''c'', ''BBBB'')] \<rparr> (RemovePlayer ''a'')"
    using run_snoc[of "[CreateRoom ''a'' ''Alice'' (0, 0, 0, 0) (0, 0, 0),
      JoinRoom ''b'' ''Bob'' (Some ''AAAA'') (0, 0, 0, 0) (0, 0, 0),
      CreateRoom ''c'' ''Cy'' (1 / 32, 1 / 32, 1 / 32, 1 / 32) (0, 0, 0)]" "RemovePlayer ''a''"]
    by (simp add: example_ops_def example_ops_3)
  then have b: "roster (run example_ops) = [(''AAAA'', [''b'']), (''BBBB'', [''c''])]"
    by (simp add: roster_def GameManager_removePlayer_def Room_removePlayer_def Let_def
        example_waiting_room_def new_Room_players turn_ge_def)
  have c: "(map_of (playerRooms (run example_ops)) ''b'' = Some ''AAAA'')
       = (\<exists>r. map_of (rooms (run example_ops)) ''AAAA'' = Some r \<and> ''b'' \<in> fst ` set (players r))"
    using one_room_per_player[of example_ops] example_fresh by blast
  show ?thesis using example_fresh b c by simp
qed

text \<open>
  The claim C7 as stated fails: a player who creates a second room stays in the player
  map of the first, and the index keeps the second only.
\<close>

theorem player_in_two_rooms:
  "roster (run [CreateRoom ''a'' ''Alice'' (0, 0, 0, 0) (0, 0, 0),
                CreateRoom ''a'' ''Alice'' (1 / 32, 1 / 32, 1 / 32, 1 / 32) (0, 0, 0)])
     = [(''AAAA'', [''a'']), (''BBBB'', [''a''])]
   \<and> playerRooms (run [CreateRoom ''a'' ''Alice'' (0, 0, 0, 0) (0, 0, 0),
                CreateRoom ''a'' ''Alice'' (1 / 32, 1 / 32, 1 / 32, 1 / 32) (0, 0, 0)])
     = [(''a'', ''BBBB'')]"
  by (simp add: roster_def run_def new_GameManager_def GameManager_createRoom_def Let_def
      generateRoomCode_zero generateRoomCode_B new_Room_players)

section \<open>The round trip of the HSL conversions\<close>

lemma hue2rgb_hits_q:
  assumes "0 \<le> h" and "h < 1"
  shows "hue2rgb p q (h + 1 / 3) = q \<or> hue2rgb p q h = q \<or> hue2rgb p q (h - 1 / 3) = q"
proof -
  consider (a) "h < 1 / 6" | (b) "1 / 6 \<le> h" "h < 1 / 2" | (c) "h = 1 / 2"
    | (d) "1 / 2 < h" "h < 5 / 6" | (e) "h = 5 / 6" | (f) "5 / 6 < h"
    by linarith
  then show ?thesis
  proof cases
    case a
    then have "hue2rgb p q (h + 1 / 3) = q" using assms by (simp add: hue2rgb_def Let_def)
    then show ?thesis by simp
  next
    case b
    then have "hue2rgb p q h = q" using assms by (simp add: hue2rgb_def Let_def)
    then show ?thesis by simp
  next
    case c
    have "hue2rgb p q (1 / 2) = q" by (simp add: hue2rgb_def Let_def field_simps)
    then show ?thesis unfolding c by blast
  next
    case d
    then have "hue2rgb p q (h - 1 / 3) = q" using assms by (simp add: hue2rgb_def Let_def)
    then show ?thesis by simp
  next
    case e
    have "hue2rgb p q (1 / 2) = q" by (simp add: hue2rgb_def Let_def field_simps)
    moreover have "h - 1 / 3 = 1 / 2" unfolding e by simp
    ultimately show ?thesis by metis
  next
    case f
    then have "hue2rgb p q (h + 1 / 3) = q" using assms by (simp add: hue2rgb_def Let_def)
    then show ?thesis by simp
  qed
qed

lemma hue2rgb_hits_p:
  assumes "0 \<le> h" and "h < 1"
  shows "hue2rgb p q (h + 1 / 3) = p \<or> hue2rgb p q h = p \<or> hue2rgb p q (h - 1 / 3) = p"
proof -
  consider (a) "h < 1 / 3" | (b) "h = 1 / 3" | (c) "1 / 3 < h" "h \<le> 2 / 3" | (d) "2 / 3 < h"
    by linarith
  then show ?thesis
  proof cases
    case a
    then have "hue2rgb p q (h - 1 / 3) = p" using assms by (simp add: hue2rgb_def Let_def)
    then show ?thesis by simp
  next
    case b
    then have "hue2rgb p q (h - 1 / 3) = p" by (simp add: hue2rgb_def Let_def)
    then show ?thesis by simp
  next
    case c
    then have "hue2rgb p q (h + 1 / 3) = p" using assms by (simp add: hue2rgb_def Let_def)
    then show ?thesis by simp
  next
    case d
    then have "hue2rgb p q h = p" using assms by (simp add: hue2rgb_def Let_def)
    then show ?thesis by simp
  qed
qed

lemma max3_eq:
  fixes a b c m :: real
  assumes "a \<le> m" "b \<le> m" "c \<le> m" and "a = m \<or> b = m \<or> c = m"
  shows "max (max a b) c = m"
  using assms by auto

lemma min3_eq:
  fixes a b c m :: real
  assumes "m \<le> a" "m \<le> b" "m \<le> c" and "a = m \<or> b = m \<or> c = m"
  shows "min (min a b) c = m"
  using assms by auto

lemma rgbToHsl_light:
  "light (rgbToHsl r0 g0 b0) =
     Math_round ((max (max (r0 / 255) (g0 / 255)) (b0 / 255)
                  + min (min (r0 / 255) (g0 / 255)) (b0 / 255)) / 2 * 100)"
  by (simp add: rgbToHsl_def Let_def)

lemma rgbToHsl_gray: "hue (rgbToHsl k k k) = 0 \<and> sat (rgbToHsl k k k) = 0"
  by (simp add: rgbToHsl_def Let_def Math_round_def)

lemma light_close:
  fixes P Q :: int and p q l :: real
  assumes P: "\<bar>real_of_int P - p * 255\<bar> \<le> 1 / 2"
    and Q: "\<bar>real_of_int Q - q * 255\<bar> \<le> 1 / 2"
    and l: "(p + q) / 2 = l / 100"
  shows "\<bar>real_of_int (Math_round ((real_of_int Q / 255 + real_of_int P / 255) / 2 * 100)) - l\<bar> < 1"
proof -
  define y where "y = (real_of_int Q / 255 + real_of_int P / 255) / 2 * 100"
  have l': "l = (p + q) * 50" using l by simp
  define e where "e = (real_of_int Q - q * 255) + (real_of_int P - p * 255)"
  have yl: "y - l = e * (50 / 255)"
    unfolding y_def l' e_def by (simp add: algebra_simps)
  have e1: "\<bar>e\<bar> \<le> 1" unfolding e_def using P Q by linarith
  have "\<bar>y - l\<bar> = \<bar>e\<bar> * (50 / 255)" unfolding yl by (simp add: abs_mult)
  moreover have "\<bar>e\<bar> * (50 / 255) \<le> 1 * (50 / 255)"
    using e1 by (intro mult_right_mono) simp_all
  ultimately have "\<bar>y - l\<bar> \<le> 50 / 255" by simp
  moreover have "\<bar>real_of_int (Math_round y) - y\<bar> \<le> 1 / 2" by (rule Math_round_err)
  ultimately show ?thesis unfolding y_def[symmetric] by linarith
qed

lemma light_roundtrip:
  assumes h: "0 \<le> h" "h < 360" and s: "0 \<le> s" "s \<le> 100" and l: "0 \<le> l" "l \<le> 100"
  shows "\<bar>real_of_int (light (rgbToHsl (of_int (red (hslToRgb h s l)))
            (of_int (green (hslToRgb h s l))) (of_int (blue (hslToRgb h s l))))) - l\<bar> < 1"
proof (cases "s = 0")
  case True
  define K where "K = Math_round (l / 100 * 255)"
  have c: "hslToRgb h s l = \<lparr> red = K, green = K, blue = K \<rparr>"
    unfolding True K_def by (rule hslToRgb_gray)
  have e: "\<bar>real_of_int K - l / 100 * 255\<bar> \<le> 1 / 2" unfolding K_def by (rule Math_round_err)
  have "\<bar>real_of_int (Math_round ((real_of_int K / 255 + real_of_int K / 255) / 2 * 100)) - l\<bar> < 1"
    by (rule light_close[OF e e]) simp
  then show ?thesis by (simp add: c rgbToHsl_light)
next
  case False
  define hn where "hn = h / 360"
  define sn where "sn = s / 100"
  define ln where "ln = l / 100"
  define q where "q = (if ln < 1 / 2 then ln * (1 + sn) else ln + sn - ln * sn)"
  define p where "p = 2 * ln - q"
  define r where "r = hue2rgb p q (hn + 1 / 3)"
  define g where "g = hue2rgb p q hn"
  define b where "b = hue2rgb p q (hn - 1 / 3)"
  define R where "R = Math_round (r * 255)"
  define G where "G = Math_round (g * 255)"
  define B where "B = Math_round (b * 255)"
  define Q where "Q = Math_round (q * 255)"
  define P where "P = Math_round (p * 255)"
  have hn: "0 \<le> hn" "hn < 1" using h by (simp_all add: hn_def)
  have sn: "0 \<le> sn" "sn \<le> 1" "sn \<noteq> 0" using s False by (simp_all add: sn_def)
  have ln: "0 \<le> ln" "ln \<le> 1" using l by (simp_all add: ln_def)
  have c: "hslToRgb h s l = \<lparr> red = R, green = G, blue = B \<rparr>"
    using sn(3)
    by (simp add: hslToRgb_def Let_def R_def G_def B_def r_def g_def b_def p_def q_def
        hn_def sn_def ln_def)
  have "0 \<le> ln * sn" using ln sn by simp
  moreover have "0 \<le> sn * (1 - ln)" using ln sn by simp
  then have "0 \<le> sn - ln * sn" by (simp add: algebra_simps)
  ultimately have lq: "ln \<le> q" unfolding q_def by (simp add: algebra_simps)
  then have pq: "p \<le> q" unfolding p_def by simp
  have avg: "(p + q) / 2 = l / 100" unfolding p_def ln_def by simp
  have rb: "p \<le> r \<and> r \<le> q" unfolding r_def using pq hn by (intro hue2rgb_bounds) simp_all
  have gb: "p \<le> g \<and> g \<le> q" unfolding g_def using pq hn by (intro hue2rgb_bounds) simp_all
  have bb: "p \<le> b \<and> b \<le> q" unfolding b_def using pq hn by (intro hue2rgb_bounds) simp_all
  have hq: "r = q \<or> g = q \<or> b = q" unfolding r_def g_def b_def using hn by (rule hue2rgb_hits_q)
  have hp: "r = p \<or> g = p \<or> b = p" unfolding r_def g_def b_def using hn by (rule hue2rgb_hits_p)
  have up: "R \<le> Q" "G \<le> Q" "B \<le> Q"
    unfolding R_def G_def B_def Q_def using rb gb bb by (simp_all add: Math_round_mono)
  have lo: "P \<le> R" "P \<le> G" "P \<le> B"
    unfolding R_def G_def B_def P_def using rb gb bb by (simp_all add: Math_round_mono)
  have eqQ: "R = Q \<or> G = Q \<or> B = Q" unfolding R_def G_def B_def Q_def using hq by auto
  have eqP: "R = P \<or> G = P \<or> B = P" unfolding R_def G_def B_def P_def using hp by auto
  have mx: "max (max (real_of_int R / 255) (real_of_int G / 255)) (real_of_int B / 255)
      = real_of_int Q / 255"
    using up eqQ by (intro max3_eq) auto
  have mn: "min (min (real_of_int R / 255) (real_of_int G / 255)) (real_of_int B / 255)
      = real_of_int P / 255"
    using lo eqP by (intro min3_eq) auto
  have "\<bar>real_of_int (Math_round ((real_of_int Q / 255 + real_of_int P / 255) / 2 * 100)) - l\<bar> < 1"
    unfolding P_def Q_def by (rule light_close[OF Math_round_err Math_round_err avg])
  then show ?thesis by (simp add: c rgbToHsl_light mx mn)
qed

lemma hslToRgb_180_0_50: "hslToRgb 180 0 50 = \<lparr>red = 128, green = 128, blue = 128\<rparr>"
  by (simp add: hslToRgb_def Let_def Math_round_def)

lemma rgbToHsl_128: "rgbToHsl 128 128 128 = \<lparr>hue = 0, sat = 0, light = 50\<rparr>"
  by (simp add: rgbToHsl_def Let_def Math_round_def)

lemma hslToRgb_10_100_1: "hslToRgb 10 100 1 = \<lparr>red = 5, green = 1, blue = 0\<rparr>"
  by (simp add: hslToRgb_def hue2rgb_def Let_def Math_round_def)

lemma rgbToHsl_5_1_0: "rgbToHsl 5 1 0 = \<lparr>hue = 12, sat = 100, light = 1\<rparr>"
  by (simp add: rgbToHsl_def Let_def Math_round_def)

text \<open>
  C9, as the code has it. For every valid HSL input (\<open>h\<close> in [0,360), \<open>s\<close> and \<open>l\<close> in
  [0,100]), \<open>hslToRgb\<close> followed by \<open>rgbToHsl\<close> returns a lightness within 1 of \<open>l\<close>; and
  for \<open>s = 0\<close> it returns hue 0 and saturation 0, whatever \<open>h\<close> was. Hue and saturation
  are not recovered within 1 in general.
\<close>

theorem hsl_roundtrip_lightness:
  "0 \<le> h \<and> h < 360 \<and> 0 \<le> s \<and> s \<le> 100 \<and> 0 \<le> l \<and> l \<le> 100 \<longrightarrow>
     (let c = hslToRgb h s l;
          out = rgbToHsl (of_int (red c)) (of_int (green c)) (of_int (blue c))
      in \<bar>real_of_int (light out) - l\<bar> < 1
         \<and> (s = 0 \<longrightarrow> hue out = 0 \<and> sat out = 0))"
proof (intro impI)
  assume a: "0 \<le> h \<and> h < 360 \<and> 0 \<le> s \<and> s \<le> 100 \<and> 0 \<le> l \<and> l \<le> 100"
  have 1: "\<bar>real_of_int (light (rgbToHsl (of_int (red (hslToRgb h s l)))
            (of_int (green (hslToRgb h s l))) (of_int (blue (hslToRgb h s l))))) - l\<bar> < 1"
    using a by (intro light_roundtrip) simp_all
  have 2: "hue (rgbToHsl (of_int (red (hslToRgb h s l)))
            (of_int (green (hslToRgb h s l))) (of_int (blue (hslToRgb h s l)))) = 0
      \<and> sat (rgbToHsl (of_int (red (hslToRgb h s l)))
            (of_int (green (hslToRgb h s l))) (of_int (blue (hslToRgb h s l)))) = 0" if "s = 0"
    unfolding that hslToRgb_gray by (simp add: rgbToHsl_gray)
  show "let c = hslToRgb h s l;
          out = rgbToHsl (of_int (red c)) (of_int (green c)) (of_int (blue c))
      in \<bar>real_of_int (light out) - l\<bar> < 1
         \<and> (s = 0 \<longrightarrow> hue out = 0 \<and> sat out = 0)"
    using 1 2 by (simp add: Let_def)
qed

theorem hsl_roundtrip_lightness_witness:
  "\<bar>real_of_int (light (rgbToHsl 128 128 128)) - 50\<bar> < 1
   \<and> hue (rgbToHsl 128 128 128) = 0 \<and> sat (rgbToHsl 128 128 128) = 0
   \<and> \<bar>real_of_int (light (rgbToHsl 5 1 0)) - 1\<bar> < 1"
  using hsl_roundtrip_lightness[of 180 0 50] hsl_roundtrip_lightness[of 10 100 1]
  by (simp add: Let_def hslToRgb_180_0_50 hslToRgb_10_100_1)

text \<open>
  The claim C9 as stated fails. The gray (180, 0, 50) becomes (128, 128, 128) and comes
  back with hue 0; the dark red (10, 100, 1) becomes (5, 1, 0) and comes back with hue 12.
\<close>

theorem hsl_roundtrip_hue_lost:
  "hslToRgb 180 0 50 = \<lparr>red = 128, green = 128, blue = 128\<rparr>
   \<and> rgbToHsl 128 128 128 = \<lparr>hue = 0, sat = 0, light = 50\<rparr>
   \<and> \<not> \<bar>real_of_int (hue (rgbToHsl 128 128 128)) - 180\<bar> \<le> 1
   \<and> hslToRgb 10 100 1 = \<lparr>red = 5, green = 1, blue = 0\<rparr>
   \<and> rgbToHsl 5 1 0 = \<lparr>hue = 12, sat = 100, light = 1\<rparr>
   \<and> \<not> \<bar>real_of_int (hue (rgbToHsl 5 1 0)) - 10\<bar> \<le> 1"
  by (simp add: hslToRgb_180_0_50 rgbToHsl_128 hslToRgb_10_100_1 rgbToHsl_5_1_0)

end
